theory Spec2Isabelle
  imports Complex_Main "HOL-Library.Sublist"
begin

section \<open>Python values used by the SAP GUI automation\<close>

text \<open>
  Strings are lists of characters, one \<^typ>\<open>char\<close> per Python character: the model
  speaks of the strings whose characters lie below U+0100. On these, \<open>lower\<close>,
  \<open>isdigit\<close> and \<open>capitalize\<close> are those of Python 3.8 and later: the capital
  letters are A to Z and U+00C0 to U+00DE without the multiplication sign, the digits
  are 0 to 9 and the superscripts U+00B2, U+00B3 and U+00B9, and the first character of
  a capitalised string is put into title case, which makes \<open>Ss\<close> of U+00DF. The
  title case of U+00B5 and of U+00FF lies above U+00FF; \<open>title_char\<close> leaves these
  two as they are. Python's \<open>a in b\<close> on strings is \<^const>\<open>sublist\<close>.
\<close>

definition lower_char :: "char \<Rightarrow> char" where
  "lower_char c =
     (let n = (of_char c :: nat)
      in if (65 \<le> n \<and> n \<le> 90) \<or> (192 \<le> n \<and> n \<le> 222 \<and> n \<noteq> 215)
         then char_of (n + 32) else c)"

definition title_char :: "char \<Rightarrow> string" where
  "title_char c =
     (let n = (of_char c :: nat)
      in if (97 \<le> n \<and> n \<le> 122) \<or> (224 \<le> n \<and> n \<le> 254 \<and> n \<noteq> 247)
         then [char_of (n - 32)]
         else if n = 223 then ''Ss'' else [c])"

definition lower :: "string \<Rightarrow> string" where
  "lower s = map lower_char s"

definition capitalize :: "string \<Rightarrow> string" where
  "capitalize s = (case s of [] \<Rightarrow> [] | c # cs \<Rightarrow> title_char c @ map lower_char cs)"

definition isdigit_char :: "char \<Rightarrow> bool" where
  "isdigit_char c =
     (let n = (of_char c :: nat) in (48 \<le> n \<and> n \<le> 57) \<or> n = 178 \<or> n = 179 \<or> n = 185)"

definition isdigit :: "string \<Rightarrow> bool" where
  "isdigit s = (s \<noteq> [] \<and> list_all isdigit_char s)"

definition digit_char :: "nat \<Rightarrow> char" where
  "digit_char d = char_of (48 + d)"

function str_nat :: "nat \<Rightarrow> string" where
  "str_nat n = (if n < 10 then [digit_char n] else str_nat (n div 10) @ [digit_char (n mod 10)])"
  by pat_completeness auto
termination
  by (relation "measure (\<lambda>n. n)") auto

declare str_nat.simps [simp del]

definition str_int :: "int \<Rightarrow> string" where
  "str_int i = (if i < 0 then ''-'' @ str_nat (nat (- i)) else str_nat (nat i))"

text \<open>
  Exceptions are values. \<open>Exception msg\<close> stands for every exception that is neither
  of the two classes the module defines; \<open>str_exn\<close> is Python's \<open>str(e)\<close>.
  A call into the outside world (the scripting object, the operating system) either
  raises or returns.
\<close>

datatype exn = SapConfigError string | SapGuiError string | Exception string

fun str_exn :: "exn \<Rightarrow> string" where
  "str_exn (SapConfigError m) = m"
| "str_exn (SapGuiError m) = m"
| "str_exn (Exception m) = m"

datatype 'a call = Raises exn | Returns 'a

section \<open>SapConfig\<close>

record SapConfig =
  platform :: string
  client :: string
  username :: string
  password :: string
  language :: string
  path :: string

text \<open>\<open>SapConfig.__post_init__\<close>: the three checks, in the source's order.\<close>

definition post_init :: "SapConfig \<Rightarrow> exn + unit" where
  "post_init c =
     (if \<not> list_all (\<lambda>s. s \<noteq> [])
            [platform c, client c, username c, password c, language c, path c]
      then Inl (SapConfigError ''All SAP configuration fields are required'')
      else if \<not> isdigit (client c)
      then Inl (SapConfigError ''SAP client must be numeric'')
      else if length (language c) \<noteq> 2
      then Inl (SapConfigError ''Language code must be 2 characters'')
      else Inr ())"

section \<open>Password generation\<close>

text \<open>
  \<open>random.randrange(start, stop)\<close> chooses an element of \<open>range(start, stop)\<close> and
  raises \<open>ValueError\<close> when the range is empty. The choice is the argument \<open>pick\<close>.
\<close>

definition py_range :: "int \<Rightarrow> int \<Rightarrow> int list" where
  "py_range start stop = [start..stop - 1]"

definition randrange :: "int \<Rightarrow> int \<Rightarrow> nat \<Rightarrow> exn + int" where
  "randrange start stop pick =
     (let xs = py_range start stop
      in if xs = [] then Inl (Exception ''empty range for randrange()'')
         else Inr (xs ! (pick mod length xs)))"

text \<open>
  \<open>SapGui.generate_password\<close>. \<open>month\<close> is \<open>datetime.now().strftime('%B')\<close> and
  \<open>year\<close> is \<open>datetime.now().strftime('%Y')\<close>; the locale call only changes what
  the month name is and its failure is caught.
\<close>

definition generate_password :: "nat \<Rightarrow> string \<Rightarrow> string \<Rightarrow> exn + string" where
  "generate_password pick month year =
     (case randrange 1 999 pick of
        Inl e \<Rightarrow> Inl e
      | Inr number \<Rightarrow> Inr (str_int number @ capitalize month @ ''#'' @ year))"


section \<open>The SapGui object and its environment\<close>

text \<open>
  A Python object is \<open>None\<close>, a COM dispatch object (\<open>win32.CDispatch\<close>, always
  true as a condition), or anything else, of which only its truth value matters.
  An attribute of the SapGui object that has never been assigned is \<open>None\<close> of the
  option type; reading it raises \<open>AttributeError\<close>.
\<close>

datatype pyobj = PyNone | Dispatch nat | Other bool

fun truthy :: "pyobj \<Rightarrow> bool" where
  "truthy PyNone = False"
| "truthy (Dispatch _) = True"
| "truthy (Other b) = b"

fun is_dispatch :: "pyobj \<Rightarrow> bool" where
  "is_dispatch (Dispatch _) = True"
| "is_dispatch _ = False"

record SapGui =
  config :: "SapConfig option"
  SapGuiAuto :: "pyobj option"
  connection :: "pyobj option"
  session :: "pyobj option"

definition new_SapGui :: SapGui where
  "new_SapGui = \<lparr>config = None, SapGuiAuto = None, connection = None, session = None\<rparr>"

text \<open>
  Every call that leaves the program is recorded, in order, with the call that was
  attempted (also when it raises). \<open>RunApplication\<close>, \<open>CloseConnectionCalled\<close> and
  \<open>LogoutCalled\<close> mark the entry into \<open>run_application\<close>, \<open>close_connection\<close>
  and \<open>sapLogout\<close>.
\<close>

datatype event =
    Sleep nat
  | RunApplication string
  | Popen string
  | GetObject string
  | GetScriptingEngine
  | OpenConnection string
  | Children
  | ResizeWorkingPane
  | SetText string string
  | SendVKey string
  | ActiveWindowName
  | FindById string
  | GetText string
  | Press string
  | Select string
  | CloseSession string
  | CloseConnectionCalled
  | LogoutCalled

definition DEFAULT_TIMEOUT :: int where "DEFAULT_TIMEOUT = 60"
definition DEFAULT_RETRY_ATTEMPTS :: nat where "DEFAULT_RETRY_ATTEMPTS = 3"
definition RETRY_DELAY :: nat where "RETRY_DELAY = 1"

text \<open>
  A method of the class: it reads and writes the object's attributes, raises or returns,
  and leaves a trace. Assignments made before an exception stay.
\<close>

type_synonym 'a io = "SapGui \<Rightarrow> 'a call \<times> SapGui \<times> event list"

definition ret :: "'a \<Rightarrow> 'a io" where
  "ret x = (\<lambda>st. (Returns x, st, []))"

definition throw :: "exn \<Rightarrow> 'a io" where
  "throw e = (\<lambda>st. (Raises e, st, []))"

definition bnd :: "'a io \<Rightarrow> ('a \<Rightarrow> 'b io) \<Rightarrow> 'b io" where
  "bnd m f = (\<lambda>st. case m st of
                (Raises e, st1, tr1) \<Rightarrow> (Raises e, st1, tr1)
              | (Returns x, st1, tr1) \<Rightarrow>
                  (case f x st1 of (r, st2, tr2) \<Rightarrow> (r, st2, tr1 @ tr2)))"

text \<open>\<open>try: m except Exception as e: h e\<close>\<close>

definition catch :: "'a io \<Rightarrow> (exn \<Rightarrow> 'a io) \<Rightarrow> 'a io" where
  "catch m h = (\<lambda>st. case m st of
                  (Raises e, st1, tr1) \<Rightarrow>
                    (case h e st1 of (r, st2, tr2) \<Rightarrow> (r, st2, tr1 @ tr2))
                | (Returns x, st1, tr1) \<Rightarrow> (Returns x, st1, tr1))"

text \<open>An external call with the environment's answer, and a marker.\<close>

definition ext :: "event \<Rightarrow> 'a call \<Rightarrow> 'a io" where
  "ext ev r = (\<lambda>st. (r, st, [ev]))"

definition lift_call :: "'a call \<Rightarrow> 'a io" where
  "lift_call r = (\<lambda>st. (r, st, []))"

definition mark :: "event \<Rightarrow> unit io" where
  "mark ev = ext ev (Returns ())"

definition sleep :: "nat \<Rightarrow> unit io" where
  "sleep n = ext (Sleep n) (Returns ())"

definition AttributeError :: "string \<Rightarrow> string \<Rightarrow> exn" where
  "AttributeError obj attr =
     Exception ([CHR 0x27] @ obj @ [CHR 0x27] @ '' object has no attribute ''
                @ [CHR 0x27] @ attr @ [CHR 0x27])"

text \<open>
  Reading an attribute of \<open>self\<close>, and reading the attribute \<open>attr\<close> of the object
  found there, which \<open>None\<close> does not have. The message is Python's.
\<close>

definition get_attr :: "string \<Rightarrow> (SapGui \<Rightarrow> pyobj option) \<Rightarrow> pyobj io" where
  "get_attr attr f = (\<lambda>st. case f st of
                   None \<Rightarrow> (Raises (AttributeError ''SapGui'' attr), st, [])
                 | Some v \<Rightarrow> (Returns v, st, []))"

definition invoke :: "pyobj \<Rightarrow> string \<Rightarrow> event \<Rightarrow> 'a call \<Rightarrow> 'a io" where
  "invoke obj attr ev r =
     (case obj of PyNone \<Rightarrow> throw (AttributeError ''NoneType'' attr) | _ \<Rightarrow> ext ev r)"

definition on_session :: "string \<Rightarrow> event \<Rightarrow> 'a call \<Rightarrow> 'a io" where
  "on_session attr ev r = bnd (get_attr ''session'' session) (\<lambda>s. invoke s attr ev r)"

section \<open>run_application\<close>

text \<open>
  What the operating system shows to one call of \<open>run_application\<close>: the names
  \<open>psutil\<close> reports (\<open>None\<close> where it has no name to give), the logical drives with
  what \<open>os.walk\<close> yields on each (directory and its files), and whether
  \<open>subprocess.Popen\<close> raises.
\<close>

record run_env =
  procs :: "string option list"
  drives :: "(string \<times> (string \<times> string list) list) list"
  popen :: "unit call"

definition path_join :: "string \<Rightarrow> string \<Rightarrow> string" where
  "path_join dirpath name =
     (if dirpath \<noteq> [] \<and> last dirpath \<notin> {CHR 0x5C, CHR ''/'', CHR '':''}
      then dirpath @ [CHR 0x5C] @ name else dirpath @ name)"

fun search_drive :: "(string \<times> string list) list \<Rightarrow> string \<Rightarrow> string option" where
  "search_drive [] software = None"
| "search_drive ((dirpath, files) # rest) software =
     (if software \<in> set files then Some (path_join dirpath software)
      else search_drive rest software)"

fun is_process_running :: "string \<Rightarrow> string option list \<Rightarrow> bool call" where
  "is_process_running process_name [] = Returns False"
| "is_process_running process_name (None # ps) = Raises (AttributeError ''NoneType'' ''lower'')"
| "is_process_running process_name (Some name # ps) =
     (if sublist (lower process_name) (lower name) then Returns True
      else is_process_running process_name ps)"

fun search_drives :: "(string \<times> (string \<times> string list) list) list \<Rightarrow> string \<Rightarrow> unit call
    \<Rightarrow> bool call \<times> event list" where
  "search_drives [] software po = (Returns False, [])"
| "search_drives ((drive, walk) # ds) software po =
     (case search_drive walk software of
        None \<Rightarrow> search_drives ds software po
      | Some software_path \<Rightarrow>
          if software_path \<noteq> []
          then (case po of
                  Raises e \<Rightarrow> (Raises e, [Popen software_path])
                | Returns _ \<Rightarrow> (Returns True, [Popen software_path]))
          else search_drives ds software po)"

definition run_application :: "run_env \<Rightarrow> string \<Rightarrow> bool call \<times> event list" where
  "run_application env software =
     (case is_process_running software (procs env) of
        Raises e \<Rightarrow> (Raises e, [])
      | Returns True \<Rightarrow> (Returns True, [])
      | Returns False \<Rightarrow> search_drives (drives env) software (popen env))"

section \<open>SapGui._initialize_connection\<close>

text \<open>What the outside answers during one pass of the retry loop.\<close>

record attempt_env =
  run :: run_env
  get_object :: "pyobj call"
  scripting_engine :: "pyobj call"
  open_connection :: "pyobj call"
  children :: "pyobj call"
  resize :: "unit call"

definition set_SapGuiAuto :: "pyobj \<Rightarrow> unit io" where
  "set_SapGuiAuto v = (\<lambda>st. (Returns (), st\<lparr>SapGuiAuto := Some v\<rparr>, []))"

definition set_connection :: "pyobj \<Rightarrow> unit io" where
  "set_connection v = (\<lambda>st. (Returns (), st\<lparr>connection := Some v\<rparr>, []))"

definition set_session :: "pyobj \<Rightarrow> unit io" where
  "set_session v = (\<lambda>st. (Returns (), st\<lparr>session := Some v\<rparr>, []))"

definition set_config :: "SapConfig \<Rightarrow> unit io" where
  "set_config c = (\<lambda>st. (Returns (), st\<lparr>config := Some c\<rparr>, []))"

text \<open>
  The body of the \<open>try\<close>. It returns \<open>True\<close> when the source reaches \<open>return\<close> on its
  last line and \<open>False\<close> at each of the two \<open>return None\<close>.
\<close>

definition attempt :: "SapConfig \<Rightarrow> attempt_env \<Rightarrow> bool io" where
  "attempt cfg env =
     bnd (mark (RunApplication (path cfg))) (\<lambda>_.
     bnd (\<lambda>st. case run_application (run env) (path cfg) of (r, tr) \<Rightarrow> (r, st, tr)) (\<lambda>runner.
     if \<not> runner then throw (Exception ''Failed to run SAPLogon.'')
     else
     bnd (sleep 2) (\<lambda>_.
     bnd (ext (GetObject ''SAPGUI'') (get_object env)) (\<lambda>auto.
     bnd (set_SapGuiAuto auto) (\<lambda>_.
     if \<not> is_dispatch auto then ret False
     else
     bnd (invoke auto ''GetScriptingEngine'' GetScriptingEngine (scripting_engine env)) (\<lambda>application.
     if \<not> is_dispatch application then bnd (set_SapGuiAuto PyNone) (\<lambda>_. ret False)
     else
     bnd (invoke application ''OpenConnection'' (OpenConnection (platform cfg)) (open_connection env)) (\<lambda>c.
     bnd (set_connection c) (\<lambda>_.
     bnd (sleep 3) (\<lambda>_.
     bnd (invoke c ''Children'' Children (children env)) (\<lambda>s.
     bnd (set_session s) (\<lambda>_.
     bnd (invoke s ''findById'' ResizeWorkingPane (resize env)) (\<lambda>_.
     ret True))))))))))))"

function initialize_loop :: "(nat \<Rightarrow> attempt_env) \<Rightarrow> SapConfig \<Rightarrow> nat \<Rightarrow> unit io" where
  "initialize_loop env cfg retry_count =
     (if retry_count < DEFAULT_RETRY_ATTEMPTS
      then catch (bnd (attempt cfg (env retry_count)) (\<lambda>_. ret ()))
             (\<lambda>e. if retry_count + 1 = DEFAULT_RETRY_ATTEMPTS
                  then throw (SapGuiError (''Failed to initialize after ''
                          @ str_nat (retry_count + 1) @ '' attempts: '' @ str_exn e))
                  else bnd (sleep RETRY_DELAY) (\<lambda>_. initialize_loop env cfg (retry_count + 1)))
      else ret ())"
  by pat_completeness auto
termination
  by (relation "measure (\<lambda>(env, cfg, retry_count). DEFAULT_RETRY_ATTEMPTS - retry_count)") auto

declare initialize_loop.simps [simp del]

definition initialize_connection :: "(nat \<Rightarrow> attempt_env) \<Rightarrow> SapConfig \<Rightarrow> unit io" where
  "initialize_connection env cfg = bnd (set_config cfg) (\<lambda>_. initialize_loop env cfg 0)"

text \<open>
  \<open>SapGui.__init__\<close>: the dictionary is the six fields; building the dataclass runs
  \<open>__post_init__\<close> before anything else.
\<close>

definition SapGui_init :: "(nat \<Rightarrow> attempt_env) \<Rightarrow> SapConfig \<Rightarrow> unit io" where
  "SapGui_init env sap_args =
     catch (bnd (lift_call (case post_init sap_args of
                               Inl e \<Rightarrow> Raises e | Inr _ \<Rightarrow> Returns sap_args)) (\<lambda>cfg.
            initialize_connection env cfg))
       (\<lambda>e. throw (SapGuiError (''Failed to initialize SAP GUI: '' @ str_exn e)))"

section \<open>Release and logout\<close>

text \<open>
  \<open>SapGui.close_connection\<close>; \<open>cs\<close> is what \<open>CloseSession\<close> does if it is called.
\<close>

definition close_connection :: "unit call \<Rightarrow> unit io" where
  "close_connection cs =
     bnd (mark CloseConnectionCalled) (\<lambda>_.
     catch
       (bnd (get_attr ''connection'' connection) (\<lambda>c.
        bnd (if truthy c
             then bnd (invoke c ''CloseSession'' (CloseSession ''ses[0]'') cs) (\<lambda>_. set_connection PyNone)
             else ret ()) (\<lambda>_.
        bnd (get_attr ''SapGuiAuto'' SapGuiAuto) (\<lambda>a.
        if truthy a then set_SapGuiAuto PyNone else ret ()))))
       (\<lambda>e. ret ()))"

record logout_env =
  set_okcd :: "unit call"
  logout_vkey :: "unit call"

definition sapLogout :: "logout_env \<Rightarrow> unit io" where
  "sapLogout env =
     bnd (mark LogoutCalled) (\<lambda>_.
     catch
       (bnd (on_session ''findById'' (SetText ''wnd[0]/tbar[0]/okcd'' ''/nex'') (set_okcd env)) (\<lambda>_.
        on_session ''findById'' (SendVKey ''wnd[0]'') (logout_vkey env)))
       (\<lambda>e. ret ()))"

section \<open>Login\<close>

record password_change_env =
  pc_active_window :: "string call"
  pc_find_popup :: "unit call"
  pc_label_text :: "string call"
  pc_pick :: nat
  pc_month :: string
  pc_year :: string
  pc_set_new :: "unit call"
  pc_set_confirm :: "unit call"
  pc_press :: "unit call"
  pc_toolbar :: "bool call"

text \<open>
  \<open>SapGui.handle_password_change\<close>. \<open>pc_toolbar\<close> is the truth value of what
  \<open>findById("wnd[0]/tbar[0]/btn[15]", False)\<close> gives. Setting the locale, whose
  failure is caught and logged, leaves no trace here.
\<close>

definition handle_password_change :: "password_change_env \<Rightarrow> bool io" where
  "handle_password_change env =
     catch
       (bnd (on_session ''ActiveWindow'' ActiveWindowName (pc_active_window env)) (\<lambda>name.
        if name \<noteq> ''wnd[1]'' then ret True
        else
        bnd (on_session ''findById'' (FindById ''wnd[1]'') (pc_find_popup env)) (\<lambda>_.
        bnd (ext (GetText ''usr/lblRSYST-NCODE_TEXT'') (pc_label_text env)) (\<lambda>txt.
        if \<not> sublist ''nova senha'' (lower txt) then ret False
        else
        bnd (case generate_password (pc_pick env) (pc_month env) (pc_year env) of
               Inl e \<Rightarrow> throw e | Inr p \<Rightarrow> ret p) (\<lambda>new_password.
        bnd (ext (SetText ''usr/pwdRSYST-NCODE'' new_password) (pc_set_new env)) (\<lambda>_.
        bnd (ext (SetText ''usr/pwdRSYST-NCOD2'' new_password) (pc_set_confirm env)) (\<lambda>_.
        bnd (ext (Press ''tbar[0]/btn[0]'') (pc_press env)) (\<lambda>_.
        bnd (sleep 3) (\<lambda>_.
        on_session ''findById'' (FindById ''wnd[0]/tbar[0]/btn[15]'') (pc_toolbar env))))))))))
       (\<lambda>e. ret False)"

record multiple_login_env =
  ml_active_window :: "string call"
  ml_window_text :: "string call"
  ml_select :: "unit call"
  ml_press :: "unit call"

definition logon_multiplo :: string where
  "logon_multiplo = ''logon m'' @ [CHR 0xFA] @ ''ltiplo''"

definition handle_multiple_login :: "multiple_login_env \<Rightarrow> bool io" where
  "handle_multiple_login env =
     catch
       (bnd (on_session ''ActiveWindow'' ActiveWindowName (ml_active_window env)) (\<lambda>name.
        bnd (if name = ''wnd[1]''
             then bnd (on_session ''findById'' (GetText ''wnd[1]'') (ml_window_text env)) (\<lambda>txt.
                  if sublist logon_multiplo txt
                  then bnd (on_session ''findById'' (Select ''wnd[1]/usr/radMULTI_LOGON_OPT1'') (ml_select env)) (\<lambda>_.
                       on_session ''findById'' (Press ''wnd[1]/tbar[0]/btn[0]'') (ml_press env))
                  else ret ())
             else ret ()) (\<lambda>_.
        ret True)))
       (\<lambda>e. ret False)"

text \<open>
  \<open>SapGui._verify_login\<close>; the answer is the truth value of the element found.
\<close>

definition verify_login :: "bool call \<Rightarrow> bool io" where
  "verify_login v =
     catch (on_session ''findById'' (FindById ''wnd[0]/tbar[0]/btn[15]'') v) (\<lambda>e. ret False)"

record login_env =
  set_client :: "unit call"
  set_username :: "unit call"
  set_password :: "unit call"
  set_language :: "unit call"
  send_vkey :: "unit call"
  password_change :: password_change_env
  multiple_login :: multiple_login_env
  verify :: "bool call"
  login_close_session :: "unit call"

text \<open>Reading \<open>self.config\<close>, which the initialisation stores.\<close>

definition get_config :: "SapConfig io" where
  "get_config = (\<lambda>st. case config st of
                   None \<Rightarrow> (Raises (AttributeError ''SapGui'' ''config''), st, [])
                 | Some c \<Rightarrow> (Returns c, st, []))"

text \<open>The body of the \<open>try\<close> in \<open>sapLogin\<close>, then the whole method.\<close>

definition sapLogin_try :: "login_env \<Rightarrow> bool io" where
  "sapLogin_try env =
     bnd get_config (\<lambda>cfg.
     bnd (on_session ''findById'' (SetText ''wnd[0]/usr/txtRSYST-MANDT'' (client cfg)) (set_client env)) (\<lambda>_.
     bnd (on_session ''findById'' (SetText ''wnd[0]/usr/txtRSYST-BNAME'' (username cfg)) (set_username env)) (\<lambda>_.
     bnd (on_session ''findById'' (SetText ''wnd[0]/usr/pwdRSYST-BCODE'' (password cfg)) (set_password env)) (\<lambda>_.
     bnd (on_session ''findById'' (SetText ''wnd[0]/usr/txtRSYST-LANGU'' (language cfg)) (set_language env)) (\<lambda>_.
     bnd (on_session ''findById'' (SendVKey ''wnd[0]'') (send_vkey env)) (\<lambda>_.
     bnd (sleep 2) (\<lambda>_.
     bnd (handle_password_change (password_change env)) (\<lambda>changed.
     if \<not> changed then ret False
     else
     bnd (handle_multiple_login (multiple_login env)) (\<lambda>resolved.
     if resolved then verify_login (verify env) else ret False)))))))))"

definition sapLogin :: "login_env \<Rightarrow> bool io" where
  "sapLogin env =
     catch (sapLogin_try env)
       (\<lambda>e. bnd (close_connection (login_close_session env)) (\<lambda>_. ret False))"

section \<open>Polling for an element\<close>

text \<open>
  \<open>SapGui.wait_for_element\<close>. The environment is the clock, \<open>clock k\<close> being what the
  \<open>k\<close>-th call of \<open>time.time()\<close> returns (the first one sets \<open>start_time\<close>), and the
  probes, \<open>probe i\<close> being the truth value of what the \<open>i\<close>-th \<open>findById\<close> gives.
  The loop may not end, so it is a partial function: \<open>None\<close> is not returning.
\<close>

record wait_env =
  clock :: "nat \<Rightarrow> real"
  probe :: "nat \<Rightarrow> bool call"

definition probe_session :: "SapGui \<Rightarrow> string \<Rightarrow> bool call \<Rightarrow> bool call \<times> event list" where
  "probe_session st element_id r =
     (case on_session ''findById'' (FindById element_id) r st of (r', st', tr) \<Rightarrow> (r', tr))"

partial_function (option) wait_loop ::
  "wait_env \<Rightarrow> SapGui \<Rightarrow> string \<Rightarrow> real \<Rightarrow> int \<Rightarrow> nat \<Rightarrow> event list \<Rightarrow> (bool \<times> event list) option"
where
  "wait_loop env st element_id start_time timeout i tr =
     (if clock env (Suc i) - start_time < of_int timeout
      then (case probe_session st element_id (probe env i) of
              (Returns found, tr1) \<Rightarrow>
                if found then Some (True, tr @ tr1)
                else wait_loop env st element_id start_time timeout (Suc i) (tr @ tr1)
            | (Raises e, tr1) \<Rightarrow>
                wait_loop env st element_id start_time timeout (Suc i) (tr @ tr1 @ [Sleep 1]))
      else Some (False, tr))"

definition wait_for_element ::
  "wait_env \<Rightarrow> SapGui \<Rightarrow> string \<Rightarrow> int \<Rightarrow> (bool \<times> event list) option" where
  "wait_for_element env st element_id timeout =
     wait_loop env st element_id (clock env 0) timeout 0 []"

definition wait_for_element_default ::
  "wait_env \<Rightarrow> SapGui \<Rightarrow> string \<Rightarrow> (bool \<times> event list) option" where
  "wait_for_element_default env st element_id =
     wait_for_element env st element_id DEFAULT_TIMEOUT"

section \<open>The driver\<close>

definition get_sap_config :: SapConfig where
  "get_sap_config =
     \<lparr>platform = ''SAP PRD'', client = ''110'', username = ''RPA_USER'',
      password = ''Dezembro#2024'', language = ''PT'', path = ''saplogon.exe''\<rparr>"

text \<open>
  \<open>create_sales_order\<close> drives the session and waits for the operator; it calls neither
  \<open>sapLogout\<close> nor \<open>close_connection\<close> and assigns no attribute of the object, so
  only its outcome is kept: \<open>sales_order\<close> of the environment.
\<close>

record main_env =
  init :: "nat \<Rightarrow> attempt_env"
  login :: login_env
  sales_order :: "string option call"
  logout :: logout_env
  final_close_session :: "unit call"

text \<open>
  \<open>main\<close>. The \<open>try\<close> block leaves \<open>sap\<close> bound or not (\<open>None\<close>: the constructor
  raised); whatever it raises is logged. In the \<open>finally\<close> block an unbound \<open>sap\<close>
  raises \<open>UnboundLocalError\<close> at once, which is logged as well. The result is the
  object, if there is one, and the trace of the whole run.
\<close>

definition main_try :: "main_env \<Rightarrow> SapGui option \<times> event list" where
  "main_try env =
     (case SapGui_init (init env) get_sap_config new_SapGui of
        (Raises e, st, tr) \<Rightarrow> (None, tr)
      | (Returns _, sap, tr) \<Rightarrow>
          (case bnd (sapLogin (login env)) (\<lambda>ok.
                  if \<not> ok then throw (Exception ''Failed to login to SAP'')
                  else lift_call (sales_order env)) sap of
             (r, sap', tr') \<Rightarrow> (Some sap', tr @ tr')))"

definition main_finally :: "main_env \<Rightarrow> SapGui option \<Rightarrow> SapGui option \<times> event list" where
  "main_finally env bound =
     (case bound of
        None \<Rightarrow> (None, [])
      | Some sap \<Rightarrow>
          (case catch (bnd (sapLogout (logout env)) (\<lambda>_.
                       close_connection (final_close_session env))) (\<lambda>e. ret ()) sap of
             (r, sap', tr) \<Rightarrow> (Some sap', tr)))"

definition main :: "main_env \<Rightarrow> SapGui option \<times> event list" where
  "main env =
     (case main_try env of (bound, tr) \<Rightarrow>
        (case main_finally env bound of (bound', tr') \<Rightarrow> (bound', tr @ tr')))"

text \<open>How often a trace enters \<open>close_connection\<close> and \<open>sapLogout\<close>.\<close>

definition releases :: "event list \<Rightarrow> nat" where
  "releases tr = count_list tr CloseConnectionCalled"

definition logouts :: "event list \<Rightarrow> nat" where
  "logouts tr = count_list tr LogoutCalled"

section \<open>Definitions for the proofs\<close>

text \<open>
  The \<open>try\<close> block of \<open>sapLogin\<close> in two parts: entering and submitting the
  credentials, and the three checks after them. \<open>sapLogin_try\<close> is the first followed
  by the second (\<open>sapLogin_try_split\<close>). The session is \<open>usable\<close> when the
  attribute is set and is not \<open>None\<close>; otherwise a call on it raises
  \<open>session_error\<close>.
\<close>

definition enter_credentials :: "login_env \<Rightarrow> unit io" where
  "enter_credentials env =
     bnd get_config (\<lambda>cfg.
     bnd (on_session ''findById'' (SetText ''wnd[0]/usr/txtRSYST-MANDT'' (client cfg)) (set_client env)) (\<lambda>_.
     bnd (on_session ''findById'' (SetText ''wnd[0]/usr/txtRSYST-BNAME'' (username cfg)) (set_username env)) (\<lambda>_.
     bnd (on_session ''findById'' (SetText ''wnd[0]/usr/pwdRSYST-BCODE'' (password cfg)) (set_password env)) (\<lambda>_.
     bnd (on_session ''findById'' (SetText ''wnd[0]/usr/txtRSYST-LANGU'' (language cfg)) (set_language env)) (\<lambda>_.
     bnd (on_session ''findById'' (SendVKey ''wnd[0]'') (send_vkey env)) (\<lambda>_.
     sleep 2))))))"

definition login_checks :: "login_env \<Rightarrow> bool io" where
  "login_checks env =
     bnd (handle_password_change (password_change env)) (\<lambda>changed.
     if \<not> changed then ret False
     else
     bnd (handle_multiple_login (multiple_login env)) (\<lambda>resolved.
     if resolved then verify_login (verify env) else ret False))"

definition usable :: "SapGui \<Rightarrow> bool" where
  "usable st = (case session st of None \<Rightarrow> False | Some s \<Rightarrow> s \<noteq> PyNone)"

definition session_error :: "SapGui \<Rightarrow> string \<Rightarrow> exn" where
  "session_error st attr =
     (case session st of
        None \<Rightarrow> AttributeError ''SapGui'' ''session''
      | Some _ \<Rightarrow> AttributeError ''NoneType'' attr)"

text \<open>
  Two properties of a method: every event it leaves satisfies \<open>P\<close>, whatever the
  object it starts from; and its result and its trace do not depend on that object.
\<close>

definition tr_all :: "(event \<Rightarrow> bool) \<Rightarrow> 'a io \<Rightarrow> bool" where
  "tr_all P m = (\<forall>st. list_all P (snd (snd (m st))))"

definition st_indep :: "'a io \<Rightarrow> bool" where
  "st_indep m = (\<forall>st st'. fst (m st) = fst (m st') \<and> snd (snd (m st)) = snd (snd (m st')))"

text \<open>
  The events of one attempt after its \<open>RunApplication\<close> mark, and the attempt without
  that mark.
\<close>

definition attempt_event :: "event \<Rightarrow> bool" where
  "attempt_event ev =
     ((\<exists>p. ev = Popen p) \<or> (\<exists>p. ev = OpenConnection p) \<or> (\<exists>p. ev = GetObject p)
      \<or> ev = Sleep 2 \<or> ev = Sleep 3 \<or> ev = GetScriptingEngine \<or> ev = Children
      \<or> ev = ResizeWorkingPane)"

definition attempt_rest :: "SapConfig \<Rightarrow> attempt_env \<Rightarrow> bool io" where
  "attempt_rest cfg env =
     bnd (\<lambda>st. case run_application (run env) (path cfg) of (r, tr) \<Rightarrow> (r, st, tr)) (\<lambda>runner.
     if \<not> runner then throw (Exception ''Failed to run SAPLogon.'')
     else
     bnd (sleep 2) (\<lambda>_.
     bnd (ext (GetObject ''SAPGUI'') (get_object env)) (\<lambda>auto.
     bnd (set_SapGuiAuto auto) (\<lambda>_.
     if \<not> is_dispatch auto then ret False
     else
     bnd (invoke auto ''GetScriptingEngine'' GetScriptingEngine (scripting_engine env)) (\<lambda>application.
     if \<not> is_dispatch application then bnd (set_SapGuiAuto PyNone) (\<lambda>_. ret False)
     else
     bnd (invoke application ''OpenConnection'' (OpenConnection (platform cfg)) (open_connection env)) (\<lambda>c.
     bnd (set_connection c) (\<lambda>_.
     bnd (sleep 3) (\<lambda>_.
     bnd (invoke c ''Children'' Children (children env)) (\<lambda>s.
     bnd (set_session s) (\<lambda>_.
     bnd (invoke s ''findById'' ResizeWorkingPane (resize env)) (\<lambda>_.
     ret True)))))))))))"

text \<open>
  How an attempt ends in a given environment: it raises, runs to its end (\<open>True\<close>) or
  stops at one of the two \<open>return None\<close> (\<open>False\<close>). The object it starts from
  plays no part (\<open>attempt_outcome_eq\<close>).
\<close>

definition attempt_outcome :: "SapConfig \<Rightarrow> attempt_env \<Rightarrow> bool call" where
  "attempt_outcome cfg env = fst (attempt cfg env new_SapGui)"

text \<open>
  What the retry loop does from pass \<open>k\<close> on, with \<open>n\<close> the number of the last
  attempt made. An attempt that stops at a \<open>return None\<close> assigns no session: the
  attribute is as it was before the loop, or holds what \<open>Children(0)\<close> gave in an
  earlier attempt that raised afterwards.
\<close>

definition stale_session :: "(nat \<Rightarrow> attempt_env) \<Rightarrow> nat \<Rightarrow> nat \<Rightarrow> SapGui \<Rightarrow> SapGui \<Rightarrow> bool" where
  "stale_session env k n st st' =
     (session st' = session st
      \<or> (\<exists>j. k \<le> j \<and> j < n - 1 \<and> (\<exists>s. children (env j) = Returns s \<and> session st' = Some s)))"

definition last_spec ::
  "(nat \<Rightarrow> attempt_env) \<Rightarrow> SapConfig \<Rightarrow> nat \<Rightarrow> nat \<Rightarrow> SapGui \<Rightarrow> unit call \<Rightarrow> SapGui \<Rightarrow> bool" where
  "last_spec env cfg k n st r st' =
     (case attempt_outcome cfg (env (n - 1)) of
        Raises e \<Rightarrow>
          n = 3 \<and> r = Raises (SapGuiError
                          (''Failed to initialize after 3 attempts: '' @ str_exn e))
      | Returns b \<Rightarrow>
          r = Returns () \<and>
          (if b then \<exists>s. s \<noteq> PyNone \<and> children (env (n - 1)) = Returns s
                        \<and> session st' = Some s
           else stale_session env k n st st'))"

definition loop_spec ::
  "(nat \<Rightarrow> attempt_env) \<Rightarrow> SapConfig \<Rightarrow> nat \<Rightarrow> SapGui \<Rightarrow> unit call \<Rightarrow> SapGui \<Rightarrow> event list \<Rightarrow> bool" where
  "loop_spec env cfg k st r st' tr =
     (\<exists>n. k < n \<and> n \<le> 3
        \<and> count_list tr (RunApplication (path cfg)) = n - k
        \<and> count_list tr (Sleep RETRY_DELAY) = n - k - 1
        \<and> (\<forall>j. k \<le> j \<and> j < n - 1 \<longrightarrow> (\<exists>e. attempt_outcome cfg (env j) = Raises e))
        \<and> last_spec env cfg k n st r st')"

section \<open>Concrete environments\<close>

text \<open>
  An object as a completed initialisation leaves it; an operating system where the SAP
  logon process runs already, and one where it does not run and no drive holds the
  executable; attempts in which everything answers, in which \<open>GetObject\<close> gives
  something that is no dispatch object, in which the resize raises, and in which the
  executable is missing; a sequence of attempts where the first raises at the resize and
  the following ones get no dispatch object.
\<close>

definition attached_SapGui :: SapGui where
  "attached_SapGui =
     \<lparr>config = Some get_sap_config, SapGuiAuto = Some (Dispatch 0),
      connection = Some (Dispatch 1), session = Some (Dispatch 2)\<rparr>"

definition running_env :: run_env where
  "running_env = \<lparr>procs = [Some ''explorer.exe'', Some ''SAPLogon.exe''], drives = [],
                   popen = Returns ()\<rparr>"

definition missing_env :: run_env where
  "missing_env =
     \<lparr>procs = [Some ''explorer.exe''],
      drives = [(''C:/'', [(''C:/Windows'', [''notepad.exe''])]), (''D:/'', [])],
      popen = Returns ()\<rparr>"

definition ok_attempt :: attempt_env where
  "ok_attempt =
     \<lparr>run = running_env, get_object = Returns (Dispatch 0),
      scripting_engine = Returns (Dispatch 10), open_connection = Returns (Dispatch 1),
      children = Returns (Dispatch 2), resize = Returns ()\<rparr>"

definition no_dispatch_attempt :: attempt_env where
  "no_dispatch_attempt = ok_attempt\<lparr>get_object := Returns (Other True)\<rparr>"

definition resize_fails_attempt :: attempt_env where
  "resize_fails_attempt =
     ok_attempt\<lparr>resize := Raises (Exception ''The method got an invalid argument.'')\<rparr>"

definition stale_attempts :: "nat \<Rightarrow> attempt_env" where
  "stale_attempts k = (if k = 0 then resize_fails_attempt else no_dispatch_attempt)"

definition missing_attempt :: attempt_env where
  "missing_attempt = ok_attempt\<lparr>run := missing_env\<rparr>"

text \<open>
  Logins: no secondary window and the toolbar element present; the same with the element
  missing; an unknown dialog at the password-change check; a client field that cannot be
  found.
\<close>

definition ok_password_change :: password_change_env where
  "ok_password_change =
     \<lparr>pc_active_window = Returns ''wnd[0]'', pc_find_popup = Returns (),
      pc_label_text = Returns ''Digite a nova senha'', pc_pick = 41,
      pc_month = ''December'', pc_year = ''2025'', pc_set_new = Returns (),
      pc_set_confirm = Returns (), pc_press = Returns (), pc_toolbar = Returns True\<rparr>"

definition ok_multiple_login :: multiple_login_env where
  "ok_multiple_login =
     \<lparr>ml_active_window = Returns ''wnd[0]'', ml_window_text = Returns ''SAP Easy Access'',
      ml_select = Returns (), ml_press = Returns ()\<rparr>"

definition ok_login :: login_env where
  "ok_login =
     \<lparr>set_client = Returns (), set_username = Returns (), set_password = Returns (),
      set_language = Returns (), send_vkey = Returns (),
      password_change = ok_password_change, multiple_login = ok_multiple_login,
      verify = Returns True, login_close_session = Returns ()\<rparr>"

definition absent_login :: login_env where
  "absent_login = ok_login\<lparr>verify := Raises (Exception ''The control could not be found by id.'')\<rparr>"


definition failing_login :: login_env where
  "failing_login = ok_login\<lparr>set_client := Raises (Exception ''The control could not be found by id.'')\<rparr>"

definition credentials_trace :: "event list" where
  "credentials_trace =
     [SetText ''wnd[0]/usr/txtRSYST-MANDT'' ''110'',
      SetText ''wnd[0]/usr/txtRSYST-BNAME'' ''RPA_USER'',
      SetText ''wnd[0]/usr/pwdRSYST-BCODE'' ''Dezembro#2024'',
      SetText ''wnd[0]/usr/txtRSYST-LANGU'' ''PT'',
      SendVKey ''wnd[0]'', Sleep 2]"




text \<open>
  An event is quiet when it is neither mark of the teardown. A whole run of the driver
  in which everything answers, and one in which the login cannot find the client field.
\<close>

definition quiet_event :: "event \<Rightarrow> bool" where
  "quiet_event ev = (ev \<noteq> CloseConnectionCalled \<and> ev \<noteq> LogoutCalled)"

definition ok_logout :: logout_env where
  "ok_logout = \<lparr>set_okcd = Returns (), logout_vkey = Returns ()\<rparr>"

definition ok_main :: main_env where
  "ok_main =
     \<lparr>init = (\<lambda>k. ok_attempt), login = ok_login,
      sales_order = Returns (Some ''Order created successfully''),
      logout = ok_logout, final_close_session = Returns ()\<rparr>"

definition failing_main :: main_env where
  "failing_main = ok_main\<lparr>login := failing_login\<rparr>"

text \<open>A clock that advances one unit per reading, and an element that never appears.\<close>

definition never_found :: wait_env where
  "never_found =
     \<lparr>clock = (\<lambda>k. real k),
      probe = (\<lambda>i. Raises (Exception ''The control could not be found by id.''))\<rparr>"

lemma ret_apply [simp]: "ret x st = (Returns x, st, [])" by (simp add: ret_def)

lemma throw_apply [simp]: "throw e st = (Raises e, st, [])" by (simp add: throw_def)

lemma ext_apply [simp]: "ext ev r st = (r, st, [ev])" by (simp add: ext_def)

lemma mark_apply [simp]: "mark ev st = (Returns (), st, [ev])" by (simp add: mark_def)

lemma sleep_apply [simp]: "sleep n st = (Returns (), st, [Sleep n])" by (simp add: sleep_def)

lemma lift_call_apply [simp]: "lift_call r st = (r, st, [])" by (simp add: lift_call_def)

lemma set_connection_apply [simp]:
  "set_connection v st = (Returns (), st\<lparr>connection := Some v\<rparr>, [])" by (simp add: set_connection_def)

lemma set_SapGuiAuto_apply [simp]:
  "set_SapGuiAuto v st = (Returns (), st\<lparr>SapGuiAuto := Some v\<rparr>, [])" by (simp add: set_SapGuiAuto_def)

lemma set_session_apply [simp]:
  "set_session v st = (Returns (), st\<lparr>session := Some v\<rparr>, [])" by (simp add: set_session_def)

lemma set_config_apply [simp]:
  "set_config v st = (Returns (), st\<lparr>config := Some v\<rparr>, [])" by (simp add: set_config_def)

lemma bnd_apply:
  "bnd m f st = (case m st of
                (Raises e, st1, tr1) \<Rightarrow> (Raises e, st1, tr1)
              | (Returns x, st1, tr1) \<Rightarrow>
                  (case f x st1 of (r, st2, tr2) \<Rightarrow> (r, st2, tr1 @ tr2)))"
  by (simp add: bnd_def)

lemma catch_apply:
  "catch m h st = (case m st of
                  (Raises e, st1, tr1) \<Rightarrow>
                    (case h e st1 of (r, st2, tr2) \<Rightarrow> (r, st2, tr1 @ tr2))
                | (Returns x, st1, tr1) \<Rightarrow> (Returns x, st1, tr1))"
  by (simp add: catch_def)

lemma get_attr_apply:
  "get_attr a f st = (case f st of
      None \<Rightarrow> (Raises (AttributeError ''SapGui'' a), st, []) | Some v \<Rightarrow> (Returns v, st, []))"
  by (simp add: get_attr_def)

lemma invoke_apply:
  "invoke obj a ev r st =
     (if obj = PyNone then (Raises (AttributeError ''NoneType'' a), st, []) else (r, st, [ev]))"
  by (cases obj) (simp_all add: invoke_def)

lemma on_session_apply:
  "on_session a ev r st =
     (case session st of
        None \<Rightarrow> (Raises (AttributeError ''SapGui'' ''session''), st, [])
      | Some s \<Rightarrow> if s = PyNone then (Raises (AttributeError ''NoneType'' a), st, [])
                  else (r, st, [ev]))"
  by (simp add: on_session_def bnd_apply get_attr_apply invoke_apply split: option.splits)

lemmas io_simps = bnd_apply catch_apply get_attr_apply invoke_apply on_session_apply

lemma bnd_assoc: "bnd (bnd m f) g = bnd m (\<lambda>x. bnd (f x) g)"
  by (rule ext) (simp add: bnd_def split: prod.splits call.splits)

lemma sapLogin_try_split:
  "sapLogin_try env = bnd (enter_credentials env) (\<lambda>_. login_checks env)"
  by (simp add: sapLogin_try_def enter_credentials_def login_checks_def bnd_assoc)

lemma on_session_usable: "usable st \<Longrightarrow> on_session a ev r st = (r, st, [ev])"
  by (simp add: on_session_apply usable_def split: option.splits)

lemma on_session_unusable:
  "\<not> usable st \<Longrightarrow> on_session a ev r st = (Raises (session_error st a), st, [])"
  by (simp add: on_session_apply usable_def session_error_def split: option.splits)

lemma close_connection_cases:
  "close_connection cs st = (r, st', tr) \<Longrightarrow>
     r = Returns () \<and> (tr = [CloseConnectionCalled] \<or> tr = [CloseConnectionCalled, CloseSession ''ses[0]''])"
  by (auto simp: close_connection_def io_simps split: option.splits call.splits prod.splits if_splits)

lemma enter_credentials_usable:
  "usable st \<Longrightarrow> enter_credentials env st = (r, st', tr) \<Longrightarrow>
     st' = st \<and> (\<forall>ev \<in> set tr. (\<exists>p v. ev = SetText p v \<and> take 7 p = ''wnd[0]/'') \<or> ev = SendVKey ''wnd[0]'' \<or> ev = Sleep 2)"
  by (auto simp: enter_credentials_def get_config_def on_session_usable bnd_apply
           split: option.splits call.splits)

lemma enter_credentials_unusable:
  "\<not> usable st \<Longrightarrow> \<exists>e. enter_credentials env st = (Raises e, st, [])"
  by (auto simp: enter_credentials_def get_config_def on_session_unusable bnd_apply
           split: option.splits call.splits)

lemma close_connection_result:
  "\<exists>st' tr. close_connection cs st = (Returns (), st', tr)
     \<and> (tr = [CloseConnectionCalled] \<or> tr = [CloseConnectionCalled, CloseSession ''ses[0]''])"
proof -
  obtain r st' tr where c: "close_connection cs st = (r, st', tr)"
    by (cases "close_connection cs st") auto
  from close_connection_cases [OF c] c show ?thesis by simp
qed

text \<open>When the try block of sapLogin raises.\<close>

lemma sapLogin_handler:
  assumes "sapLogin_try env st = (Raises e, st1, tr1)"
  shows "\<exists>st2 tr2. sapLogin env st = (Returns False, st2, tr1 @ tr2)
     \<and> (tr2 = [CloseConnectionCalled] \<or> tr2 = [CloseConnectionCalled, CloseSession ''ses[0]''])"
proof -
  obtain st2 tr2 where c: "close_connection (login_close_session env) st1 = (Returns (), st2, tr2)"
    and t: "tr2 = [CloseConnectionCalled] \<or> tr2 = [CloseConnectionCalled, CloseSession ''ses[0]'']"
    using close_connection_result by blast
  have "bnd (close_connection (login_close_session env)) (\<lambda>_. ret False) st1
          = (Returns False, st2, tr2 @ [])"
    using c by (simp add: bnd_def)
  with assms have "sapLogin env st = (Returns False, st2, tr1 @ tr2)"
    by (simp add: sapLogin_def catch_def)
  with t show ?thesis by blast
qed

lemma sapLogin_normal:
  assumes "sapLogin_try env st = (Returns b, st1, tr1)"
  shows "sapLogin env st = (Returns b, st1, tr1)"
  using assms by (simp add: sapLogin_def catch_def)

lemma hpc_primary:
  assumes "usable st" and "pc_active_window pce = Returns ''wnd[0]''"
  shows "handle_password_change pce st = (Returns True, st, [ActiveWindowName])"
  using assms
  by (simp add: handle_password_change_def on_session_usable bnd_def catch_def)

lemma hml_primary:
  assumes "usable st" and "ml_active_window mle = Returns ''wnd[0]''"
  shows "handle_multiple_login mle st = (Returns True, st, [ActiveWindowName])"
  using assms
  by (simp add: handle_multiple_login_def on_session_usable bnd_def catch_def)

lemma verify_login_result:
  assumes "usable st"
  shows "verify_login v st = (Returns (v = Returns True), st, [FindById ''wnd[0]/tbar[0]/btn[15]''])"
  using assms
  by (cases v) (simp_all add: verify_login_def on_session_usable catch_def)

lemma login_checks_primary:
  assumes "usable st"
    and "pc_active_window (password_change env) = Returns ''wnd[0]''"
    and "ml_active_window (multiple_login env) = Returns ''wnd[0]''"
  shows "login_checks env st =
      (Returns (verify env = Returns True), st,
       [ActiveWindowName, ActiveWindowName, FindById ''wnd[0]/tbar[0]/btn[15]''])"
  using assms
  by (simp add: login_checks_def bnd_def hpc_primary hml_primary verify_login_result)



lemma sapLogin_credentials_raise:
  assumes ec: "enter_credentials env st = (Raises e, st, trc)"
    and run: "sapLogin env st = (r, st', tr)"
  shows "r = Returns False \<and>
     (tr = trc @ [CloseConnectionCalled] \<or> tr = trc @ [CloseConnectionCalled, CloseSession ''ses[0]''])"
proof -
  from ec have "sapLogin_try env st = (Raises e, st, trc)"
    by (simp add: sapLogin_try_split bnd_def)
  from sapLogin_handler [OF this] run show ?thesis by auto
qed

lemma sapLogin_credentials_return:
  assumes ec: "enter_credentials env st = (Returns u, st, trc)"
    and lc: "login_checks env st = (Returns b, st, trl)"
  shows "sapLogin env st = (Returns b, st, trc @ trl)"
proof -
  from ec lc have "sapLogin_try env st = (Returns b, st, trc @ trl)"
    by (simp add: sapLogin_try_split bnd_def)
  then show ?thesis by (rule sapLogin_normal)
qed

section \<open>Properties of the login\<close>

text \<open>
  C2. Take a run of \<open>sapLogin\<close> that asks for the active window twice, at the
  password-change check and at the multiple-login check, and is answered \<open>wnd[0]\<close>,
  the primary window, both times. Its result is \<open>True\<close> exactly when looking up the
  toolbar element \<open>wnd[0]/tbar[0]/btn[15]\<close> returns a true object; when the lookup
  raises, or gives a false object, the result is \<open>False\<close>. The object is unchanged.
\<close>

theorem sapLogin_no_secondary_window:
  assumes run: "sapLogin env st = (r, st', tr)"
    and pc: "pc_active_window (password_change env) = Returns ''wnd[0]''"
    and ml: "ml_active_window (multiple_login env) = Returns ''wnd[0]''"
    and reached: "count_list tr ActiveWindowName = 2"
  shows "r = Returns (verify env = Returns True) \<and> st' = st"
proof (cases "usable st")
  case False
  then obtain e where ec: "enter_credentials env st = (Raises e, st, [])"
    using enter_credentials_unusable by blast
  from sapLogin_credentials_raise [OF ec run] reached show ?thesis by auto
next
  case True
  obtain rc stc trc where c: "enter_credentials env st = (rc, stc, trc)"
    by (cases "enter_credentials env st") auto
  from enter_credentials_usable [OF True c]
  have same: "stc = st" and quiet: "ActiveWindowName \<notin> set trc" by auto
  show ?thesis
  proof (cases rc)
    case (Raises e)
    with c same have ec: "enter_credentials env st = (Raises e, st, trc)" by simp
    from sapLogin_credentials_raise [OF ec run] reached quiet show ?thesis by auto
  next
    case (Returns u)
    with c same have ec: "enter_credentials env st = (Returns u, st, trc)" by simp
    from sapLogin_credentials_return [OF ec login_checks_primary [OF True pc ml]] run
    show ?thesis by simp
  qed
qed


lemma tr_all_ret: "tr_all P (ret x)" by (simp add: tr_all_def)

lemma tr_all_throw: "tr_all P (throw e)" by (simp add: tr_all_def)

lemma tr_all_lift_call: "tr_all P (lift_call r)" by (simp add: tr_all_def)

lemma tr_all_ext: "P ev \<Longrightarrow> tr_all P (ext ev r)" by (simp add: tr_all_def)

lemma tr_all_mark: "P ev \<Longrightarrow> tr_all P (mark ev)" by (simp add: tr_all_def)

lemma tr_all_sleep: "P (Sleep n) \<Longrightarrow> tr_all P (sleep n)" by (simp add: tr_all_def)

lemma tr_all_set: "tr_all P (set_SapGuiAuto v)" "tr_all P (set_connection v)"
  "tr_all P (set_session v)" "tr_all P (set_config c)"
  by (simp_all add: tr_all_def)

lemma tr_all_get_attr: "tr_all P (get_attr a f)"
  by (simp add: tr_all_def get_attr_apply split: option.splits)

lemma tr_all_get_config: "tr_all P get_config"
  by (simp add: tr_all_def get_config_def split: option.splits)

lemma tr_all_invoke: "P ev \<Longrightarrow> tr_all P (invoke obj a ev r)"
  by (simp add: tr_all_def invoke_apply)

lemma tr_all_on_session: "P ev \<Longrightarrow> tr_all P (on_session a ev r)"
  by (simp add: tr_all_def on_session_apply split: option.splits)

lemma tr_all_bnd: "tr_all P m \<Longrightarrow> (\<And>x. tr_all P (f x)) \<Longrightarrow> tr_all P (bnd m f)"
  unfolding tr_all_def bnd_def
  by (auto split: prod.splits call.splits)
     (metis snd_conv)+

lemma tr_all_catch: "tr_all P m \<Longrightarrow> (\<And>e. tr_all P (h e)) \<Longrightarrow> tr_all P (catch m h)"
  unfolding tr_all_def catch_def
  by (auto split: prod.splits call.splits)
     (metis snd_conv)+

lemma tr_all_if: "(c \<Longrightarrow> tr_all P a) \<Longrightarrow> (\<not> c \<Longrightarrow> tr_all P b) \<Longrightarrow> tr_all P (if c then a else b)"
  by simp

lemma tr_allD: "tr_all P m \<Longrightarrow> m st = (r, st', tr) \<Longrightarrow> list_all P tr"
  by (auto simp: tr_all_def dest: spec [where x = st])

lemma search_drives_trace: "list_all attempt_event (snd (search_drives ds software po))"
  by (induction ds software po rule: search_drives.induct)
     (auto simp: attempt_event_def split: option.splits call.splits)

lemma run_application_trace: "list_all attempt_event (snd (run_application e software))"
  by (simp add: run_application_def search_drives_trace split: call.splits bool.splits)

lemma attempt_split: "attempt cfg env = bnd (mark (RunApplication (path cfg))) (\<lambda>_. attempt_rest cfg env)"
  by (simp add: attempt_def attempt_rest_def)

lemma tr_all_run: 
  "tr_all attempt_event (\<lambda>st. case run_application e software of (r, tr) \<Rightarrow> (r, st, tr))"
  using run_application_trace [of e software]
  by (cases "run_application e software") (simp add: tr_all_def)

lemma attempt_rest_events: "tr_all attempt_event (attempt_rest cfg env)"
  unfolding attempt_rest_def
  by (intro tr_all_bnd tr_all_if tr_all_run tr_all_ret tr_all_throw tr_all_ext tr_all_sleep
        tr_all_set tr_all_invoke)
     (simp_all add: attempt_event_def)

lemma attempt_trace:
  assumes "attempt cfg env st = (r, st', tr)"
  shows "\<exists>tr'. tr = RunApplication (path cfg) # tr' \<and> list_all attempt_event tr'"
proof -
  obtain r2 st2 tr2 where a: "attempt_rest cfg env st = (r2, st2, tr2)"
    by (cases "attempt_rest cfg env st") auto
  from tr_allD [OF attempt_rest_events a] have "list_all attempt_event tr2" .
  moreover from assms a have "tr = RunApplication (path cfg) # tr2"
    by (simp add: attempt_split bnd_def split: call.splits)
  ultimately show ?thesis by blast
qed

lemma attempt_True:
  assumes "attempt cfg env st = (Returns True, st', tr)"
  shows "\<exists>s. s \<noteq> PyNone \<and> children env = Returns s \<and> session st' = Some s
           \<and> resize env = Returns ()"
  using assms
  by (auto simp: attempt_def bnd_apply invoke_apply split: prod.splits call.splits if_splits)

lemma attempt_False:
  assumes "attempt cfg env st = (Returns False, st', tr)"
  shows "session st' = session st \<and> connection st' = connection st"
  using assms
  by (auto simp: attempt_def bnd_apply invoke_apply split: prod.splits call.splits if_splits)

lemma attempt_session:
  assumes "attempt cfg env st = (r, st', tr)"
  shows "session st' = session st \<or> (\<exists>s. children env = Returns s \<and> session st' = Some s)"
  using assms
  by (auto simp: attempt_def bnd_apply invoke_apply split: prod.splits call.splits if_splits)

lemma st_indep_basic:
  "st_indep (ret x)" "st_indep (throw e)" "st_indep (ext ev r)" "st_indep (mark ev)"
  "st_indep (sleep n)" "st_indep (lift_call r)" "st_indep (set_SapGuiAuto v)"
  "st_indep (set_connection v)" "st_indep (set_session v)" "st_indep (invoke obj a ev r)"
  "st_indep (\<lambda>st. case run_application renv software of (r, tr) \<Rightarrow> (r, st, tr))"
  by (simp_all add: st_indep_def invoke_apply split: prod.splits)

lemma st_indep_bnd: "st_indep m \<Longrightarrow> (\<And>x. st_indep (f x)) \<Longrightarrow> st_indep (bnd m f)"
proof -
  assume m: "st_indep m" and f: "\<And>x. st_indep (f x)"
  show "st_indep (bnd m f)"
    unfolding st_indep_def
  proof (intro allI)
    fix st st'
    obtain r st1 tr1 where a: "m st = (r, st1, tr1)" by (cases "m st") auto
    obtain r' st1' tr1' where b: "m st' = (r', st1', tr1')" by (cases "m st'") auto
    from m a b have eq: "r' = r" "tr1' = tr1"
      unfolding st_indep_def by (metis fst_conv, metis snd_conv)
    show "fst (bnd m f st) = fst (bnd m f st') \<and> snd (snd (bnd m f st)) = snd (snd (bnd m f st'))"
    proof (cases r)
      case (Raises e)
      with a b eq show ?thesis by (simp add: bnd_def)
    next
      case (Returns x)
      obtain r2 st2 tr2 where c: "f x st1 = (r2, st2, tr2)" by (cases "f x st1") auto
      obtain r2' st2' tr2' where d: "f x st1' = (r2', st2', tr2')" by (cases "f x st1'") auto
      from f [of x] c d have "r2' = r2" "tr2' = tr2"
        unfolding st_indep_def by (metis fst_conv, metis snd_conv)
      with Returns a b eq c d show ?thesis by (simp add: bnd_def)
    qed
  qed
qed

lemma st_indep_if: "(c \<Longrightarrow> st_indep a) \<Longrightarrow> (\<not> c \<Longrightarrow> st_indep b) \<Longrightarrow> st_indep (if c then a else b)"
  by simp

lemma attempt_st_indep: "st_indep (attempt cfg env)"
  unfolding attempt_def
  by (intro st_indep_bnd st_indep_if st_indep_basic)

lemma attempt_outcome_eq: "attempt cfg env st = (r, st', tr) \<Longrightarrow> attempt_outcome cfg env = r"
  using attempt_st_indep [of cfg env]
  unfolding st_indep_def attempt_outcome_def by (metis fst_conv)

lemma count_list_all_not: "list_all P tr \<Longrightarrow> \<not> P ev \<Longrightarrow> count_list tr ev = 0"
  by (auto simp: count_list_0_iff list_all_iff)

lemma attempt_counts:
  assumes "attempt cfg env st = (r, st', tr)"
  shows "count_list tr (RunApplication (path cfg)) = 1 \<and> count_list tr (Sleep RETRY_DELAY) = 0"
proof -
  from attempt_trace [OF assms] obtain tr' where
    t: "tr = RunApplication (path cfg) # tr'" and a: "list_all attempt_event tr'" by blast
  have "count_list tr' (RunApplication (path cfg)) = 0"
    by (rule count_list_all_not [OF a]) (simp add: attempt_event_def)
  moreover have "count_list tr' (Sleep RETRY_DELAY) = 0"
    by (rule count_list_all_not [OF a]) (simp add: attempt_event_def RETRY_DELAY_def)
  ultimately show ?thesis using t by (simp add: RETRY_DELAY_def)
qed

lemma str_nat_3: "str_nat 3 = ''3''"
  by code_simp

lemma loop_unfold:
  assumes "k < 3"
  shows "initialize_loop env cfg k st =
     (case attempt cfg (env k) st of
        (Returns b, st1, tr1) \<Rightarrow> (Returns (), st1, tr1)
      | (Raises e, st1, tr1) \<Rightarrow>
          if k = 2
          then (Raises (SapGuiError (''Failed to initialize after 3 attempts: '' @ str_exn e)),
                st1, tr1)
          else (case initialize_loop env cfg (k + 1) st1 of
                  (r2, st2, tr2) \<Rightarrow> (r2, st2, tr1 @ Sleep RETRY_DELAY # tr2)))"
proof -
  obtain r st1 tr1 where a: "attempt cfg (env k) st = (r, st1, tr1)"
    by (cases "attempt cfg (env k) st") auto
  show ?thesis
  proof (cases r)
    case (Returns b)
    with a assms show ?thesis
      by (subst initialize_loop.simps) (simp add: DEFAULT_RETRY_ATTEMPTS_def catch_def bnd_def)
  next
    case (Raises e)
    show ?thesis
    proof (cases "k = 2")
      case True
      with a Raises show ?thesis
        by (subst initialize_loop.simps)
           (simp add: DEFAULT_RETRY_ATTEMPTS_def catch_def bnd_def str_nat_3)
    next
      case False
      with a Raises assms show ?thesis
        by (subst initialize_loop.simps)
           (simp add: DEFAULT_RETRY_ATTEMPTS_def catch_def bnd_def split: prod.splits)
    qed
  qed
qed

lemma loop_specI:
  assumes "k < n" "n \<le> 3"
    and "count_list tr (RunApplication (path cfg)) = n - k"
    and "count_list tr (Sleep RETRY_DELAY) = n - k - 1"
    and "\<And>j. k \<le> j \<Longrightarrow> j < n - 1 \<Longrightarrow> \<exists>e. attempt_outcome cfg (env j) = Raises e"
    and "last_spec env cfg k n st r st'"
  shows "loop_spec env cfg k st r st' tr"
  unfolding loop_spec_def using assms by blast

lemma loop_spec_return:
  assumes a: "attempt cfg (env k) st = (Returns b, st', tr)" and k: "k < 3"
  shows "loop_spec env cfg k st (Returns ()) st' tr"
proof (rule loop_specI [where n = "Suc k"])
  note o = attempt_outcome_eq [OF a]
  note c = attempt_counts [OF a]
  show "k < Suc k" by simp
  show "Suc k \<le> 3" using k by simp
  show "count_list tr (RunApplication (path cfg)) = Suc k - k" using c by simp
  show "count_list tr (Sleep RETRY_DELAY) = Suc k - k - 1" using c by simp
  show "\<exists>e. attempt_outcome cfg (env j) = Raises e" if "k \<le> j" "j < Suc k - 1" for j
    using that by simp
  have last: "if b then \<exists>s. s \<noteq> PyNone \<and> children (env k) = Returns s \<and> session st' = Some s
              else stale_session env k (Suc k) st st'"
  proof (cases b)
    case True
    with a attempt_True [of cfg "env k" st st' tr] show ?thesis by auto
  next
    case False
    with a attempt_False [of cfg "env k" st st' tr] show ?thesis
      by (simp add: stale_session_def)
  qed
  with o show "last_spec env cfg k (Suc k) st (Returns ()) st'"
    by (simp add: last_spec_def)
qed

lemma loop_spec_last_raise:
  assumes a: "attempt cfg (env 2) st = (Raises e, st', tr)"
  shows "loop_spec env cfg 2 st
           (Raises (SapGuiError (''Failed to initialize after 3 attempts: '' @ str_exn e))) st' tr"
proof (rule loop_specI [where n = 3])
  note o = attempt_outcome_eq [OF a]
  note c = attempt_counts [OF a]
  show "(2::nat) < 3" "(3::nat) \<le> 3" by simp_all
  show "count_list tr (RunApplication (path cfg)) = 3 - 2" using c by simp
  show "count_list tr (Sleep RETRY_DELAY) = 3 - 2 - 1" using c by simp
  show "\<exists>e. attempt_outcome cfg (env j) = Raises e" if "2 \<le> j" "j < 3 - 1" for j
    using that by simp
  have "(3::nat) - 1 = 2" by simp
  with o show "last_spec env cfg 2 3 st
     (Raises (SapGuiError (''Failed to initialize after 3 attempts: '' @ str_exn e))) st'"
    by (simp add: last_spec_def)
qed

lemma loop_spec_retry:
  assumes a: "attempt cfg (env k) st = (Raises e, st1, tr1)" and k: "k < 2"
    and rest: "loop_spec env cfg (k + 1) st1 r st' tr2"
  shows "loop_spec env cfg k st r st' (tr1 @ Sleep RETRY_DELAY # tr2)"
proof -
  note o = attempt_outcome_eq [OF a]
  note c = attempt_counts [OF a]
  note s1 = attempt_session [OF a]
  from rest obtain n where N: "k + 1 < n \<and> n \<le> 3
        \<and> count_list tr2 (RunApplication (path cfg)) = n - (k + 1)
        \<and> count_list tr2 (Sleep RETRY_DELAY) = n - (k + 1) - 1
        \<and> (\<forall>j. k + 1 \<le> j \<and> j < n - 1 \<longrightarrow> (\<exists>e. attempt_outcome cfg (env j) = Raises e))
        \<and> last_spec env cfg (k + 1) n st1 r st'"
    unfolding loop_spec_def by (rule exE)
  note n = N [THEN conjunct1] N [THEN conjunct2, THEN conjunct1]
  note ra = N [THEN conjunct2, THEN conjunct2, THEN conjunct1]
  note sl = N [THEN conjunct2, THEN conjunct2, THEN conjunct2, THEN conjunct1]
  note fails = N [THEN conjunct2, THEN conjunct2, THEN conjunct2, THEN conjunct2, THEN conjunct1]
  note last = N [THEN conjunct2, THEN conjunct2, THEN conjunct2, THEN conjunct2, THEN conjunct2]
  have stale: "stale_session env k n st st'" if "stale_session env (k + 1) n st1 st'"
  proof -
    from that consider (same) "session st' = session st1"
      | (later) j s where "k + 1 \<le> j" "j < n - 1" "children (env j) = Returns s"
          "session st' = Some s"
      unfolding stale_session_def by blast
    then show ?thesis
    proof cases
      case same
      from s1 show ?thesis
      proof
        assume "session st1 = session st"
        with same show ?thesis by (simp add: stale_session_def)
      next
        assume "\<exists>s. children (env k) = Returns s \<and> session st1 = Some s"
        then obtain s where "children (env k) = Returns s" "session st1 = Some s" by blast
        with same n have "k \<le> k \<and> k < n - 1 \<and> (\<exists>s. children (env k) = Returns s
            \<and> session st' = Some s)" by simp
        then show ?thesis unfolding stale_session_def by blast
      qed
    next
      case later
      then have "k \<le> j \<and> j < n - 1 \<and> (\<exists>s. children (env j) = Returns s
            \<and> session st' = Some s)" by simp
      then show ?thesis unfolding stale_session_def by blast
    qed
  qed
  show ?thesis
  proof (rule loop_specI [where n = n])
    show "k < n" "n \<le> 3" using n by simp_all
    show "count_list (tr1 @ Sleep RETRY_DELAY # tr2) (RunApplication (path cfg)) = n - k"
      using c ra n by simp
    show "count_list (tr1 @ Sleep RETRY_DELAY # tr2) (Sleep RETRY_DELAY) = n - k - 1"
      using c sl n by simp
    show "\<exists>e. attempt_outcome cfg (env j) = Raises e" if "k \<le> j" "j < n - 1" for j
    proof (cases "j = k")
      case True with o show ?thesis by simp
    next
      case False with that fails show ?thesis by simp
    qed
    show "last_spec env cfg k n st r st'"
    proof (cases "attempt_outcome cfg (env (n - 1))")
      case (Raises e')
      with last show ?thesis by (simp add: last_spec_def)
    next
      case (Returns b)
      show ?thesis
      proof (cases b)
        case True
        with Returns last show ?thesis by (simp add: last_spec_def)
      next
        case False
        with Returns last have "r = Returns ()" "stale_session env (k + 1) n st1 st'"
          by (simp_all add: last_spec_def)
        with stale Returns False show ?thesis by (simp add: last_spec_def)
      qed
    qed
  qed
qed

lemma loop_spec_holds:
  "k < 3 \<Longrightarrow> initialize_loop env cfg k st = (r, st', tr) \<Longrightarrow> loop_spec env cfg k st r st' tr"
proof (induction "2 - k" arbitrary: k st r st' tr)
  case 0
  then have k: "k = 2" by simp
  note u = loop_unfold [of 2 env cfg st]
  obtain ra st1 tr1 where a: "attempt cfg (env 2) st = (ra, st1, tr1)"
    by (cases "attempt cfg (env 2) st") auto
  show ?case
  proof (cases ra)
    case (Returns b)
    with a "0.prems" k u have "r = Returns ()" "st' = st1" "tr = tr1"
      by simp_all
    with loop_spec_return [of cfg env 2 st b st1 tr1] a Returns k show ?thesis by simp
  next
    case (Raises e)
    with a "0.prems" k u
    have "r = Raises (SapGuiError (''Failed to initialize after 3 attempts: '' @ str_exn e))"
      "st' = st1" "tr = tr1"
      by simp_all
    with loop_spec_last_raise [of cfg env st e st1 tr1] a Raises k show ?thesis by simp
  qed
next
  case (Suc d)
  then have k: "k < 2" by simp
  then have k3: "k < 3" by simp
  note u = loop_unfold [of k env cfg st, OF k3]
  obtain ra st1 tr1 where a: "attempt cfg (env k) st = (ra, st1, tr1)"
    by (cases "attempt cfg (env k) st") auto
  show ?case
  proof (cases ra)
    case (Returns b)
    with a Suc.prems u have "r = Returns ()" "st' = st1" "tr = tr1"
      by simp_all
    with loop_spec_return [of cfg env k st b st1 tr1] a Returns k3 show ?thesis by simp
  next
    case (Raises e)
    obtain r2 st2 tr2 where l: "initialize_loop env cfg (k + 1) st1 = (r2, st2, tr2)"
      by (cases "initialize_loop env cfg (k + 1) st1") auto
    from Suc.hyps(2) have d: "d = 2 - (k + 1)" by simp
    from k have "k + 1 < 3" by simp
    from Suc.hyps(1) [OF d this l] have rest: "loop_spec env cfg (k + 1) st1 r2 st2 tr2" .
    from a Raises l k Suc.prems u
    have "r = r2" "st' = st2" "tr = tr1 @ Sleep RETRY_DELAY # tr2"
      by simp_all
    with loop_spec_retry [of cfg env k st e st1 tr1 r2 st2 tr2] a Raises k rest
    show ?thesis by simp
  qed
qed

section \<open>Establishing the connection\<close>

text \<open>
  C1, as the code has it. \<open>_initialize_connection\<close> makes between one and three
  attempts, each starting with \<open>run_application\<close>, and sleeps one time unit after
  every attempt but the last; every attempt before the last one raised. The last attempt
  decides the outcome. If it raised, it was the third, and the method raises
  \<open>SapGuiError\<close> with the message of that last exception. If it ran to its end, the
  method returns and \<open>session\<close> holds the object \<open>Children(0)\<close> gave, which is not
  \<open>None\<close>. If it found that \<open>GetObject\<close> or the scripting engine did not give a
  dispatch object, the method returns at once, with no error, and that attempt attaches
  nothing: \<open>session\<close> is what it was before the call, or what \<open>Children(0)\<close> gave
  in an earlier attempt that raised afterwards.
\<close>

theorem initialize_connection_outcomes:
  assumes "initialize_connection env cfg st = (r, st', tr)"
  shows "\<exists>n. 1 \<le> n \<and> n \<le> DEFAULT_RETRY_ATTEMPTS
      \<and> count_list tr (RunApplication (path cfg)) = n
      \<and> count_list tr (Sleep RETRY_DELAY) = n - 1
      \<and> (\<forall>j<n - 1. \<exists>e. attempt_outcome cfg (env j) = Raises e)
      \<and> (case attempt_outcome cfg (env (n - 1)) of
            Raises e \<Rightarrow>
              n = DEFAULT_RETRY_ATTEMPTS \<and>
              r = Raises (SapGuiError (''Failed to initialize after 3 attempts: '' @ str_exn e))
          | Returns b \<Rightarrow>
              r = Returns () \<and>
              (if b then \<exists>s. s \<noteq> PyNone \<and> children (env (n - 1)) = Returns s
                            \<and> session st' = Some s
               else session st' = session st
                    \<or> (\<exists>j<n - 1. \<exists>s. children (env j) = Returns s \<and> session st' = Some s)))"
proof -
  from assms have "initialize_loop env cfg 0 (st\<lparr>config := Some cfg\<rparr>) = (r, st', tr)"
    by (simp add: initialize_connection_def bnd_def split: prod.splits)
  from loop_spec_holds [OF _ this] have "loop_spec env cfg 0 (st\<lparr>config := Some cfg\<rparr>) r st' tr"
    by simp
  then obtain n where N: "0 < n \<and> n \<le> 3
        \<and> count_list tr (RunApplication (path cfg)) = n - 0
        \<and> count_list tr (Sleep RETRY_DELAY) = n - 0 - 1
        \<and> (\<forall>j. 0 \<le> j \<and> j < n - 1 \<longrightarrow> (\<exists>e. attempt_outcome cfg (env j) = Raises e))
        \<and> last_spec env cfg 0 n (st\<lparr>config := Some cfg\<rparr>) r st'"
    unfolding loop_spec_def by (rule exE)
  note n = N [THEN conjunct1] N [THEN conjunct2, THEN conjunct1]
  note ra = N [THEN conjunct2, THEN conjunct2, THEN conjunct1]
  note sl = N [THEN conjunct2, THEN conjunct2, THEN conjunct2, THEN conjunct1]
  note fails = N [THEN conjunct2, THEN conjunct2, THEN conjunct2, THEN conjunct2, THEN conjunct1]
  note last = N [THEN conjunct2, THEN conjunct2, THEN conjunct2, THEN conjunct2, THEN conjunct2]
  show ?thesis
  proof (intro exI [where x = n] conjI)
    show "1 \<le> n" using n by simp
    show "n \<le> DEFAULT_RETRY_ATTEMPTS" using n by (simp add: DEFAULT_RETRY_ATTEMPTS_def)
    show "count_list tr (RunApplication (path cfg)) = n" using ra by simp
    show "count_list tr (Sleep RETRY_DELAY) = n - 1" using sl by simp
    show "\<forall>j<n - 1. \<exists>e. attempt_outcome cfg (env j) = Raises e" using fails by simp
    show "case attempt_outcome cfg (env (n - 1)) of
            Raises e \<Rightarrow>
              n = DEFAULT_RETRY_ATTEMPTS \<and>
              r = Raises (SapGuiError (''Failed to initialize after 3 attempts: '' @ str_exn e))
          | Returns b \<Rightarrow>
              r = Returns () \<and>
              (if b then \<exists>s. s \<noteq> PyNone \<and> children (env (n - 1)) = Returns s
                            \<and> session st' = Some s
               else session st' = session st
                    \<or> (\<exists>j<n - 1. \<exists>s. children (env j) = Returns s \<and> session st' = Some s))"
    proof (cases "attempt_outcome cfg (env (n - 1))")
      case (Raises e')
      with last show ?thesis by (simp add: last_spec_def DEFAULT_RETRY_ATTEMPTS_def)
    next
      case (Returns b)
      show ?thesis
      proof (cases b)
        case True
        with Returns last show ?thesis by (simp add: last_spec_def)
      next
        case False
        with Returns last have r: "r = Returns ()"
          and "stale_session env 0 n (st\<lparr>config := Some cfg\<rparr>) st'"
          by (simp_all add: last_spec_def)
        then have "session st' = session st
             \<or> (\<exists>j<n - 1. \<exists>s. children (env j) = Returns s \<and> session st' = Some s)"
          by (auto simp: stale_session_def)
        with Returns False r show ?thesis by simp
      qed
    qed
  qed
qed

lemma search_drives_none:
  "\<forall>d \<in> set ds. search_drive (snd d) software = None \<Longrightarrow>
     search_drives ds software po = (Returns False, [])"
  by (induction ds software po rule: search_drives.induct) auto

lemma attempt_not_found:
  assumes "is_process_running (path cfg) (procs (run e)) = Returns False"
    and "\<forall>d \<in> set (drives (run e)). search_drive (snd d) (path cfg) = None"
  shows "attempt cfg e st =
           (Raises (Exception ''Failed to run SAPLogon.''), st, [RunApplication (path cfg)])"
  using assms
  by (simp add: attempt_def bnd_def run_application_def search_drives_none)

text \<open>
  C3, as the code has it. When on each of the three attempts the process is not running
  and no drive yields the executable, \<open>run_application\<close> returns \<open>False\<close>, the
  attempt raises \<open>Failed to run SAPLogon.\<close>, and this is retried like any other
  failure: the search runs three times, one time unit apart, and the method then raises
  \<open>SapGuiError\<close> carrying that message.
\<close>

theorem executable_not_found_retried:
  assumes "\<forall>k<3. is_process_running (path cfg) (procs (run (env k))) = Returns False
             \<and> (\<forall>d \<in> set (drives (run (env k))). search_drive (snd d) (path cfg) = None)"
  shows "initialize_connection env cfg st =
          (Raises (SapGuiError ''Failed to initialize after 3 attempts: Failed to run SAPLogon.''),
           st\<lparr>config := Some cfg\<rparr>,
           [RunApplication (path cfg), Sleep RETRY_DELAY,
            RunApplication (path cfg), Sleep RETRY_DELAY,
            RunApplication (path cfg)])"
proof -
  have a: "attempt cfg (env k) s =
           (Raises (Exception ''Failed to run SAPLogon.''), s, [RunApplication (path cfg)])"
    if "k < 3" for k s
    using assms that by (intro attempt_not_found) auto
  have l2: "initialize_loop env cfg 2 s =
      (Raises (SapGuiError ''Failed to initialize after 3 attempts: Failed to run SAPLogon.''),
       s, [RunApplication (path cfg)])" for s
    using loop_unfold [of 2 env cfg s] a [of 2 s] by simp
  have l1: "initialize_loop env cfg 1 s =
      (Raises (SapGuiError ''Failed to initialize after 3 attempts: Failed to run SAPLogon.''),
       s, [RunApplication (path cfg), Sleep RETRY_DELAY, RunApplication (path cfg)])" for s
    using loop_unfold [of 1 env cfg s] a [of 1 s] l2 [of s] by (simp add: numeral_2_eq_2)
  have l0: "initialize_loop env cfg 0 s =
      (Raises (SapGuiError ''Failed to initialize after 3 attempts: Failed to run SAPLogon.''),
       s, [RunApplication (path cfg), Sleep RETRY_DELAY, RunApplication (path cfg),
           Sleep RETRY_DELAY, RunApplication (path cfg)])" for s
    using loop_unfold [of 0 env cfg s] a [of 0 s] l1 [of s] by simp
  show ?thesis
    by (simp add: initialize_connection_def bnd_def l0)
qed

theorem sapLogin_no_secondary_window_witness:
  "sapLogin ok_login attached_SapGui =
     (Returns True, attached_SapGui,
      credentials_trace @ [ActiveWindowName, ActiveWindowName, FindById ''wnd[0]/tbar[0]/btn[15]''])
   \<and> verify ok_login = Returns True
   \<and> sapLogin absent_login attached_SapGui =
     (Returns False, attached_SapGui,
      credentials_trace @ [ActiveWindowName, ActiveWindowName, FindById ''wnd[0]/tbar[0]/btn[15]''])
   \<and> verify absent_login \<noteq> Returns True"
proof -
  have run: "sapLogin ok_login attached_SapGui =
     (Returns True, attached_SapGui,
      credentials_trace @ [ActiveWindowName, ActiveWindowName, FindById ''wnd[0]/tbar[0]/btn[15]''])"
    by code_simp
  have pc: "pc_active_window (password_change ok_login) = Returns ''wnd[0]''"
    by (simp add: ok_login_def ok_password_change_def)
  have ml: "ml_active_window (multiple_login ok_login) = Returns ''wnd[0]''"
    by (simp add: ok_login_def ok_multiple_login_def)
  have cnt: "count_list (credentials_trace @
       [ActiveWindowName, ActiveWindowName, FindById ''wnd[0]/tbar[0]/btn[15]'']) ActiveWindowName = 2"
    by (simp add: credentials_trace_def)
  have run2: "sapLogin absent_login attached_SapGui =
     (Returns False, attached_SapGui,
      credentials_trace @ [ActiveWindowName, ActiveWindowName, FindById ''wnd[0]/tbar[0]/btn[15]''])"
    by code_simp
  have pc2: "pc_active_window (password_change absent_login) = Returns ''wnd[0]''"
    by (simp add: absent_login_def ok_login_def ok_password_change_def)
  have ml2: "ml_active_window (multiple_login absent_login) = Returns ''wnd[0]''"
    by (simp add: absent_login_def ok_login_def ok_multiple_login_def)
  from sapLogin_no_secondary_window [OF run pc ml cnt]
    sapLogin_no_secondary_window [OF run2 pc2 ml2 cnt] run run2
  show ?thesis by simp
qed


theorem initialize_connection_outcomes_witness:
  "initialize_connection (\<lambda>k. ok_attempt) get_sap_config new_SapGui =
    (Returns (), attached_SapGui,
     [RunApplication ''saplogon.exe'', Sleep 2, GetObject ''SAPGUI'', GetScriptingEngine,
      OpenConnection ''SAP PRD'', Sleep 3, Children, ResizeWorkingPane])
   \<and> attempt_outcome get_sap_config ok_attempt = Returns True
   \<and> session attached_SapGui = Some (Dispatch 2)
   \<and> initialize_connection stale_attempts get_sap_config new_SapGui =
    (Returns (),
     attached_SapGui\<lparr>SapGuiAuto := Some (Other True)\<rparr>,
     [RunApplication ''saplogon.exe'', Sleep 2, GetObject ''SAPGUI'', GetScriptingEngine,
      OpenConnection ''SAP PRD'', Sleep 3, Children, ResizeWorkingPane, Sleep 1,
      RunApplication ''saplogon.exe'', Sleep 2, GetObject ''SAPGUI''])
   \<and> attempt_outcome get_sap_config (stale_attempts 1) = Returns False
   \<and> children (stale_attempts 0) = Returns (Dispatch 2)"
proof -
  have run: "initialize_connection (\<lambda>k. ok_attempt) get_sap_config new_SapGui =
    (Returns (), attached_SapGui,
     [RunApplication ''saplogon.exe'', Sleep 2, GetObject ''SAPGUI'', GetScriptingEngine,
      OpenConnection ''SAP PRD'', Sleep 3, Children, ResizeWorkingPane])"
    by code_simp
  have o: "attempt_outcome get_sap_config ok_attempt = Returns True"
    by code_simp
  have s: "session attached_SapGui = Some (Dispatch 2)"
    by (simp add: attached_SapGui_def)
  have run2: "initialize_connection stale_attempts get_sap_config new_SapGui =
    (Returns (),
     attached_SapGui\<lparr>SapGuiAuto := Some (Other True)\<rparr>,
     [RunApplication ''saplogon.exe'', Sleep 2, GetObject ''SAPGUI'', GetScriptingEngine,
      OpenConnection ''SAP PRD'', Sleep 3, Children, ResizeWorkingPane, Sleep 1,
      RunApplication ''saplogon.exe'', Sleep 2, GetObject ''SAPGUI''])"
    by code_simp
  have o2: "attempt_outcome get_sap_config (stale_attempts 1) = Returns False"
    by code_simp
  have c2: "children (stale_attempts 0) = Returns (Dispatch 2)"
    by code_simp
  from initialize_connection_outcomes [OF run] initialize_connection_outcomes [OF run2]
    run o s run2 o2 c2
  show ?thesis by simp
qed

theorem initialize_connection_silent_counterexample:
  "fst (initialize_connection (\<lambda>k. no_dispatch_attempt) get_sap_config new_SapGui) = Returns ()
   \<and> session (fst (snd (initialize_connection (\<lambda>k. no_dispatch_attempt) get_sap_config new_SapGui)))
       = None
   \<and> snd (snd (initialize_connection (\<lambda>k. no_dispatch_attempt) get_sap_config new_SapGui))
       = [RunApplication ''saplogon.exe'', Sleep 2, GetObject ''SAPGUI'']"
  by code_simp

theorem executable_not_found_retried_witness:
  "initialize_connection (\<lambda>k. missing_attempt) get_sap_config new_SapGui =
     (Raises (SapGuiError ''Failed to initialize after 3 attempts: Failed to run SAPLogon.''),
      new_SapGui\<lparr>config := Some get_sap_config\<rparr>,
      [RunApplication ''saplogon.exe'', Sleep 1, RunApplication ''saplogon.exe'', Sleep 1,
       RunApplication ''saplogon.exe''])
   \<and> run_application missing_env ''saplogon.exe'' = (Returns False, [])"
proof -
  have h: "\<forall>k<3. is_process_running (path get_sap_config) (procs (run ((\<lambda>k. missing_attempt) k)))
               = Returns False
             \<and> (\<forall>d \<in> set (drives (run ((\<lambda>k. missing_attempt) k))).
                   search_drive (snd d) (path get_sap_config) = None)"
  proof -
    have p: "is_process_running ''saplogon.exe'' [Some ''explorer.exe''] = Returns False"
      by code_simp
    then show ?thesis
      by (simp add: missing_attempt_def ok_attempt_def missing_env_def get_sap_config_def)
  qed
  have r: "run_application missing_env ''saplogon.exe'' = (Returns False, [])"
    by code_simp
  from executable_not_found_retried [of get_sap_config "\<lambda>k. missing_attempt" new_SapGui, OF h] r
  show ?thesis by (simp add: get_sap_config_def RETRY_DELAY_def)
qed

theorem executable_not_found_counterexample:
  "count_list (snd (snd (initialize_connection (\<lambda>k. missing_attempt) get_sap_config new_SapGui)))
     (RunApplication ''saplogon.exe'') = 3
   \<and> fst (initialize_connection (\<lambda>k. missing_attempt) get_sap_config new_SapGui) =
       Raises (SapGuiError ''Failed to initialize after 3 attempts: Failed to run SAPLogon.'')"
  by code_simp



section \<open>Configuration validation\<close>



section \<open>The generated password\<close>

text \<open>
  C6. The generated password is the draw in decimal, the capitalised month name, a hash
  sign and the year, with nothing in between, and it is determined by these three; a
  draw there always is. When the draw is 42, the month name is December and the year
  is 2025, the password is 42December#2025. Capitalising makes the first letter of the
  month name a capital and the other letters small, also for the accented letters below
  U+0100: the first character is put into title case (\<open>title_char\<close>), the others
  into lower case.
\<close>

theorem generate_password_format:
  "(randrange 1 999 pick = Inr n \<longrightarrow>
      generate_password pick month year = Inr (str_int n @ capitalize month @ ''#'' @ year))
   \<and> (randrange 1 999 pick = Inr 42 \<longrightarrow>
      generate_password pick ''December'' ''2025'' = Inr ''42December#2025'')
   \<and> (\<exists>n. randrange 1 999 pick = Inr n)
   \<and> capitalize (c # cs) = title_char c @ lower cs
   \<and> capitalize ''December'' = ''December''
   \<and> capitalize ''dezembro'' = ''Dezembro''
   \<and> capitalize ''MARCH'' = ''March''
   \<and> capitalize [CHR 0xE1, CHR ''g'', CHR 0xFA, CHR ''s'', CHR ''t'']
       = [CHR 0xC1, CHR ''g'', CHR 0xFA, CHR ''s'', CHR ''t'']
   \<and> str_int 7 = ''7'' \<and> str_int 42 = ''42'' \<and> str_int 998 = ''998''"
proof (intro conjI impI)
  assume "randrange 1 999 pick = Inr n"
  then show "generate_password pick month year = Inr (str_int n @ capitalize month @ ''#'' @ year)"
    by (simp add: generate_password_def)
next
  assume "randrange 1 999 pick = Inr 42"
  moreover have "str_int 42 = ''42''" by code_simp
  moreover have "capitalize ''December'' = ''December''" by code_simp
  ultimately show "generate_password pick ''December'' ''2025'' = Inr ''42December#2025''"
    by (simp add: generate_password_def)
next
  show "\<exists>n. randrange 1 999 pick = Inr n"
    by (simp add: randrange_def py_range_def)
next
  show "capitalize (c # cs) = title_char c @ lower cs"
    by (simp add: capitalize_def lower_def)
qed code_simp+

theorem generate_password_format_witness:
  "randrange 1 999 41 = Inr 42
   \<and> generate_password 41 ''December'' ''2025'' = Inr ''42December#2025''
   \<and> randrange 1 999 6 = Inr 7
   \<and> generate_password 6 ''dezembro'' ''2024'' = Inr ''7Dezembro#2024''"
proof -
  have h: "randrange 1 999 41 = Inr 42" "randrange 1 999 6 = Inr 7"
    by (simp_all add: randrange_def py_range_def)
  have c: "str_int 7 = ''7''" "capitalize ''dezembro'' = ''Dezembro''" by code_simp+
  from h c show ?thesis
    using generate_password_format [of 41 42 "''December''" "''2025''"]
      generate_password_format [of 6 7 "''dezembro''" "''2024''"]
    by simp
qed

text \<open>
  C7, as the code has it. \<open>random.randrange(1, 999)\<close> chooses from \<open>range(1, 999)\<close>:
  the draw ranges over the integers 1 to 998 inclusive; every one of them, and no
  other value, is a possible draw. 999 is not.
\<close>

theorem randrange_draws:
  "(\<exists>pick. randrange 1 999 pick = Inr n) = (1 \<le> n \<and> n \<le> 998)"
proof
  assume "\<exists>pick. randrange 1 999 pick = Inr n"
  then obtain pick where "randrange 1 999 pick = Inr n" ..
  then have "n = [1..998] ! (pick mod 998)" by (simp add: randrange_def py_range_def)
  moreover have "pick mod 998 < 998" by simp
  ultimately show "1 \<le> n \<and> n \<le> 998" by simp
next
  assume r: "1 \<le> n \<and> n \<le> 998"
  then have "nat (n - 1) < 998" by arith
  then have "nat (n - 1) mod 998 = nat (n - 1)" by (rule mod_less)
  with r have "randrange 1 999 (nat (n - 1)) = Inr n"
    by (simp add: randrange_def py_range_def)
  then show "\<exists>pick. randrange 1 999 pick = Inr n" ..
qed

theorem randrange_draws_witness:
  "(\<exists>pick. randrange 1 999 pick = Inr 998) \<and> \<not> (\<exists>pick. randrange 1 999 pick = Inr 0)"
  using randrange_draws [of 998] randrange_draws [of 0] by simp

theorem randrange_999_counterexample:
  "999 \<notin> set (py_range 1 999) \<and> randrange 1 999 997 = Inr 998 \<and> randrange 1 999 998 = Inr 1"
  by (simp add: randrange_def py_range_def)

section \<open>Releasing the connection\<close>

text \<open>
  C10, as the code has it. \<open>close_connection\<close> never lets an exception through. When
  both handles are set and \<open>CloseSession\<close> does not raise, one call leaves both handles
  \<open>None\<close>, and a further call changes nothing and calls nothing outside. When
  \<open>CloseSession\<close> raises, the exception is swallowed and both handles stay as they
  were, so a later call tries \<open>CloseSession\<close> again.
\<close>

theorem close_connection_release:
  "(\<exists>st' tr. close_connection cs st = (Returns (), st', tr))
   \<and> (connection st = Some c \<and> SapGuiAuto st = Some a \<and> truthy c \<and> truthy a \<and> cs = Returns ()
        \<longrightarrow> close_connection cs st =
              (Returns (), st\<lparr>connection := Some PyNone, SapGuiAuto := Some PyNone\<rparr>,
               [CloseConnectionCalled, CloseSession ''ses[0]'']))
   \<and> (connection st = Some PyNone \<and> SapGuiAuto st = Some PyNone
        \<longrightarrow> close_connection cs st = (Returns (), st, [CloseConnectionCalled]))
   \<and> (connection st = Some c \<and> truthy c \<and> cs = Raises e
        \<longrightarrow> close_connection cs st =
              (Returns (), st, [CloseConnectionCalled, CloseSession ''ses[0]'']))"
  by (cases cs; cases c; cases a)
     (auto simp: close_connection_def io_simps split: option.splits call.splits prod.splits)

theorem close_connection_release_witness:
  "close_connection (Returns ()) attached_SapGui =
     (Returns (), attached_SapGui\<lparr>connection := Some PyNone, SapGuiAuto := Some PyNone\<rparr>,
      [CloseConnectionCalled, CloseSession ''ses[0]''])
   \<and> close_connection (Returns ())
        (attached_SapGui\<lparr>connection := Some PyNone, SapGuiAuto := Some PyNone\<rparr>) =
     (Returns (), attached_SapGui\<lparr>connection := Some PyNone, SapGuiAuto := Some PyNone\<rparr>,
      [CloseConnectionCalled])
   \<and> close_connection (Raises (Exception ''The session is gone.'')) attached_SapGui =
     (Returns (), attached_SapGui, [CloseConnectionCalled, CloseSession ''ses[0]''])"
  using close_connection_release [of "Returns ()" attached_SapGui "Dispatch 1" "Dispatch 0"]
    close_connection_release [of "Returns ()"
      "attached_SapGui\<lparr>connection := Some PyNone, SapGuiAuto := Some PyNone\<rparr>"]
    close_connection_release [of "Raises (Exception ''The session is gone.'')" attached_SapGui
      "Dispatch 1" _ "Exception ''The session is gone.''"]
  by (simp add: attached_SapGui_def)

theorem close_connection_raise_counterexample:
  "connection (fst (snd (close_connection (Raises (Exception ''The session is gone.''))
      attached_SapGui))) = Some (Dispatch 1)
   \<and> SapGuiAuto (fst (snd (close_connection (Raises (Exception ''The session is gone.''))
      attached_SapGui))) = Some (Dispatch 0)"
  by code_simp

lemma tr_all_weaken: "tr_all P m \<Longrightarrow> (\<And>ev. P ev \<Longrightarrow> Q ev) \<Longrightarrow> tr_all Q m"
  by (auto simp: tr_all_def list_all_iff)

lemma tr_all_case_sum:
  "(\<And>e. tr_all P (f e)) \<Longrightarrow> (\<And>p. tr_all P (g p))
     \<Longrightarrow> tr_all P (case x of Inl e \<Rightarrow> f e | Inr p \<Rightarrow> g p)"
  by (cases x) simp_all

lemma quiet_count:
  "list_all quiet_event tr \<Longrightarrow> releases tr = 0 \<and> logouts tr = 0"
  by (simp add: releases_def logouts_def count_list_all_not quiet_event_def)

lemma attempt_quiet: "tr_all quiet_event (attempt cfg env)"
  unfolding attempt_split
proof (intro tr_all_bnd tr_all_mark)
  show "quiet_event (RunApplication (path cfg))" by (simp add: quiet_event_def)
  show "tr_all quiet_event (attempt_rest cfg env)"
    by (rule tr_all_weaken [OF attempt_rest_events]) (auto simp: attempt_event_def quiet_event_def)
qed

lemma loop_quiet: "tr_all quiet_event (initialize_loop env cfg k)"
proof (induction "3 - k" arbitrary: k)
  case 0
  then show ?case
    by (subst initialize_loop.simps) (simp add: DEFAULT_RETRY_ATTEMPTS_def tr_all_ret)
next
  case (Suc d)
  then have k: "k < 3" and d: "d = 3 - (k + 1)" by simp_all
  note IH = Suc.hyps(1) [OF d]
  have "tr_all quiet_event
     (catch (bnd (attempt cfg (env k)) (\<lambda>_. ret ()))
        (\<lambda>e. if k + 1 = DEFAULT_RETRY_ATTEMPTS
             then throw (SapGuiError (''Failed to initialize after ''
                     @ str_nat (k + 1) @ '' attempts: '' @ str_exn e))
             else bnd (sleep RETRY_DELAY) (\<lambda>_. initialize_loop env cfg (k + 1))))"
    by (intro tr_all_catch tr_all_bnd tr_all_if tr_all_ret tr_all_throw tr_all_sleep
          attempt_quiet IH)
       (simp add: quiet_event_def)
  with k show ?case
    by (subst initialize_loop.simps) (simp add: DEFAULT_RETRY_ATTEMPTS_def)
qed

lemma init_quiet: "tr_all quiet_event (SapGui_init env cfg)"
  unfolding SapGui_init_def initialize_connection_def
  by (intro tr_all_catch tr_all_bnd tr_all_lift_call tr_all_set tr_all_throw loop_quiet)

lemma hpc_quiet: "tr_all quiet_event (handle_password_change env)"
  unfolding handle_password_change_def
  by (intro tr_all_catch tr_all_bnd tr_all_if tr_all_ret tr_all_throw tr_all_sleep
        tr_all_on_session tr_all_ext tr_all_case_sum)
     (simp_all add: quiet_event_def)

lemma hml_quiet: "tr_all quiet_event (handle_multiple_login env)"
  unfolding handle_multiple_login_def
  by (intro tr_all_catch tr_all_bnd tr_all_if tr_all_ret tr_all_on_session)
     (simp_all add: quiet_event_def)

lemma verify_quiet: "tr_all quiet_event (verify_login v)"
  unfolding verify_login_def
  by (intro tr_all_catch tr_all_ret tr_all_on_session) (simp_all add: quiet_event_def)

lemma login_try_quiet: "tr_all quiet_event (sapLogin_try env)"
  unfolding sapLogin_try_def
  by (intro tr_all_bnd tr_all_if tr_all_ret tr_all_sleep tr_all_on_session tr_all_get_config
        hpc_quiet hml_quiet verify_quiet)
     (simp_all add: quiet_event_def)

lemma sapLogin_result:
  "\<exists>b st' tr. sapLogin env st = (Returns b, st', tr) \<and> logouts tr = 0
     \<and> releases tr = (case sapLogin_try env st of (Raises e, _, _) \<Rightarrow> 1 | (Returns b, _, _) \<Rightarrow> 0)"
proof -
  obtain r st1 tr1 where t: "sapLogin_try env st = (r, st1, tr1)"
    by (cases "sapLogin_try env st") auto
  note q = quiet_count [OF tr_allD [OF login_try_quiet t]]
  show ?thesis
  proof (cases r)
    case (Raises e)
    with t have t': "sapLogin_try env st = (Raises e, st1, tr1)" by simp
    from sapLogin_handler [OF t'] obtain st2 tr2 where
      s: "sapLogin env st = (Returns False, st2, tr1 @ tr2)"
      and c: "tr2 = [CloseConnectionCalled] \<or> tr2 = [CloseConnectionCalled, CloseSession ''ses[0]'']"
      by blast
    from c q have "logouts (tr1 @ tr2) = 0 \<and> releases (tr1 @ tr2) = 1"
      by (auto simp: releases_def logouts_def)
    with t' have "logouts (tr1 @ tr2) = 0 \<and> releases (tr1 @ tr2) =
        (case sapLogin_try env st of (Raises e, _, _) \<Rightarrow> 1 | (Returns b, _, _) \<Rightarrow> 0)"
      by simp
    with s show ?thesis by blast
  next
    case (Returns b)
    with t have t': "sapLogin_try env st = (Returns b, st1, tr1)" by simp
    from q t' have "logouts tr1 = 0 \<and> releases tr1 =
        (case sapLogin_try env st of (Raises e, _, _) \<Rightarrow> 1 | (Returns b, _, _) \<Rightarrow> 0)"
      by simp
    with sapLogin_normal [OF t'] show ?thesis by blast
  qed
qed

lemma sapLogout_result:
  "\<exists>st' tr. sapLogout env st = (Returns (), st', LogoutCalled # tr) \<and> list_all quiet_event tr"
proof -
  let ?body = "bnd (on_session ''findById'' (SetText ''wnd[0]/tbar[0]/okcd'' ''/nex'') (set_okcd env)) (\<lambda>_.
        on_session ''findById'' (SendVKey ''wnd[0]'') (logout_vkey env))"
  obtain r st1 tr1 where b: "?body st = (r, st1, tr1)" by (cases "?body st") auto
  have "tr_all quiet_event ?body"
    by (intro tr_all_bnd tr_all_on_session) (simp_all add: quiet_event_def)
  from tr_allD [OF this b] have q: "list_all quiet_event tr1" .
  from b have "sapLogout env st = (Returns (), st1, LogoutCalled # tr1)"
    by (cases r) (simp_all add: sapLogout_def bnd_def catch_def)
  with q show ?thesis by blast
qed

lemma teardown_result:
  "\<exists>st' mid post.
     catch (bnd (sapLogout lo) (\<lambda>_. close_connection cs)) (\<lambda>e. ret ()) st =
       (Returns (), st', LogoutCalled # mid @ CloseConnectionCalled # post)
     \<and> list_all quiet_event mid \<and> list_all quiet_event post"
proof -
  from sapLogout_result obtain st1 mid where
    l: "sapLogout lo st = (Returns (), st1, LogoutCalled # mid)" and m: "list_all quiet_event mid"
    by blast
  from close_connection_result obtain st2 tr2 where
    c: "close_connection cs st1 = (Returns (), st2, tr2)"
    and t: "tr2 = [CloseConnectionCalled] \<or> tr2 = [CloseConnectionCalled, CloseSession ''ses[0]'']"
    by blast
  from t obtain post where p: "tr2 = CloseConnectionCalled # post" and q: "list_all quiet_event post"
    by (auto simp: quiet_event_def)
  from l c p have "catch (bnd (sapLogout lo) (\<lambda>_. close_connection cs)) (\<lambda>e. ret ()) st =
       (Returns (), st2, LogoutCalled # mid @ CloseConnectionCalled # post)"
    by (simp add: bnd_def catch_def)
  with m q show ?thesis by blast
qed

lemma main_init_raises:
  assumes i: "SapGui_init (init env) get_sap_config new_SapGui = (Raises e, sap, tr0)"
  shows "main env = (None, tr0)"
  using i by (simp add: main_def main_try_def main_finally_def)

lemma main_init_returns:
  assumes i: "SapGui_init (init env) get_sap_config new_SapGui = (Returns u, sap, tr0)"
  shows "\<exists>sap' trl mid post.
     main env = (Some sap', tr0 @ trl @ LogoutCalled # mid @ CloseConnectionCalled # post)
     \<and> logouts trl = 0
     \<and> releases trl =
          (case sapLogin_try (login env) sap of (Raises e, _, _) \<Rightarrow> 1 | (Returns b, _, _) \<Rightarrow> 0)
     \<and> list_all quiet_event mid \<and> list_all quiet_event post"
proof -
  from sapLogin_result [of "login env" sap] obtain b sap1 trl where
    l: "sapLogin (login env) sap = (Returns b, sap1, trl)" and lo: "logouts trl = 0"
    and re: "releases trl =
          (case sapLogin_try (login env) sap of (Raises e, _, _) \<Rightarrow> 1 | (Returns b, _, _) \<Rightarrow> 0)"
    by blast
  have "\<exists>r. bnd (sapLogin (login env)) (\<lambda>ok.
                  if \<not> ok then throw (Exception ''Failed to login to SAP'')
                  else lift_call (sales_order env)) sap = (r, sap1, trl)"
    using l by (cases b) (simp_all add: bnd_def)
  with i have t: "main_try env = (Some sap1, tr0 @ trl)"
    by (auto simp: main_try_def)
  from teardown_result [of "logout env" "final_close_session env" sap1]
  obtain sap2 mid post where
    f: "catch (bnd (sapLogout (logout env)) (\<lambda>_. close_connection (final_close_session env)))
          (\<lambda>e. ret ()) sap1 =
       (Returns (), sap2, LogoutCalled # mid @ CloseConnectionCalled # post)"
    and q: "list_all quiet_event mid" "list_all quiet_event post"
    by blast
  from t f have "main env =
      (Some sap2, tr0 @ trl @ LogoutCalled # mid @ CloseConnectionCalled # post)"
    by (simp add: main_def main_finally_def)
  with lo re q show ?thesis by blast
qed

section \<open>Teardown in the driver\<close>

text \<open>
  C8, as the code has it. When the constructor of \<open>SapGui\<close> raises, \<open>main\<close> enters
  neither \<open>sapLogout\<close> nor \<open>close_connection\<close>. When it returns, the \<open>finally\<close>
  block runs once, as the end of the run: \<open>sapLogout\<close> is entered exactly once and
  after it \<open>close_connection\<close>. \<open>close_connection\<close> is entered once more, before
  that and inside \<open>sapLogin\<close>, exactly when the \<open>try\<close> block of \<open>sapLogin\<close>
  raises: it is entered twice on such a run and once on every other.
\<close>

theorem main_teardown:
  assumes m: "main env = (bound, tr)"
  shows "case SapGui_init (init env) get_sap_config new_SapGui of
           (Raises e, sap, tr0) \<Rightarrow> bound = None \<and> releases tr = 0 \<and> logouts tr = 0
         | (Returns u, sap, tr0) \<Rightarrow>
             bound \<noteq> None \<and> logouts tr = 1
             \<and> releases tr =
                 (case sapLogin_try (login env) sap of
                    (Raises e, _, _) \<Rightarrow> 2 | (Returns b, _, _) \<Rightarrow> 1)
             \<and> (\<exists>pre mid post.
                   tr = pre @ LogoutCalled # mid @ CloseConnectionCalled # post
                   \<and> list_all quiet_event mid \<and> list_all quiet_event post)"
proof -
  obtain ri sap tr0 where i: "SapGui_init (init env) get_sap_config new_SapGui = (ri, sap, tr0)"
    by (cases "SapGui_init (init env) get_sap_config new_SapGui") auto
  note q0 = quiet_count [OF tr_allD [OF init_quiet i]]
  show ?thesis
  proof (cases ri)
    case (Raises e)
    with i have i': "SapGui_init (init env) get_sap_config new_SapGui = (Raises e, sap, tr0)"
      by simp
    from main_init_raises [OF i'] m q0 i' show ?thesis by simp
  next
    case (Returns u)
    with i have i': "SapGui_init (init env) get_sap_config new_SapGui = (Returns u, sap, tr0)"
      by simp
    from main_init_returns [OF i'] obtain sap' trl mid post where
      e: "main env = (Some sap', tr0 @ trl @ LogoutCalled # mid @ CloseConnectionCalled # post)"
      and lo: "logouts trl = 0"
      and re: "releases trl =
          (case sapLogin_try (login env) sap of (Raises e, _, _) \<Rightarrow> 1 | (Returns b, _, _) \<Rightarrow> 0)"
      and q: "list_all quiet_event mid" "list_all quiet_event post"
      by blast
    from e m have b: "bound = Some sap'"
      and t: "tr = tr0 @ trl @ LogoutCalled # mid @ CloseConnectionCalled # post" by simp_all
    note qm = quiet_count [OF q(1)] and qp = quiet_count [OF q(2)]
    from t q0 lo qm qp have c1: "logouts tr = 1" by (simp add: logouts_def)
    from t q0 qm qp have c2: "releases tr = releases trl + 1" by (simp add: releases_def)
    have c3: "releases tr =
        (case sapLogin_try (login env) sap of (Raises e, _, _) \<Rightarrow> 2 | (Returns b, _, _) \<Rightarrow> 1)"
      using c2 re by (simp split: prod.splits call.splits)
    have c4: "\<exists>pre mid post.
                   tr = pre @ LogoutCalled # mid @ CloseConnectionCalled # post
                   \<and> list_all quiet_event mid \<and> list_all quiet_event post"
    proof (intro exI conjI)
      show "tr = (tr0 @ trl) @ LogoutCalled # mid @ CloseConnectionCalled # post" using t by simp
    qed (rule q)+
    from i' b c1 c3 c4 show ?thesis by simp
  qed
qed

theorem main_teardown_witness:
  "fst (SapGui_init (init ok_main) get_sap_config new_SapGui) = Returns ()
   \<and> fst (sapLogin_try (login ok_main) attached_SapGui) = Returns True
   \<and> releases (snd (main ok_main)) = 1 \<and> logouts (snd (main ok_main)) = 1
   \<and> fst (sapLogin_try (login failing_main) attached_SapGui)
        = Raises (Exception ''The control could not be found by id.'')
   \<and> releases (snd (main failing_main)) = 2 \<and> logouts (snd (main failing_main)) = 1"
proof -
  have i1: "SapGui_init (init ok_main) get_sap_config new_SapGui =
     (Returns (), attached_SapGui,
     [RunApplication ''saplogon.exe'', Sleep 2, GetObject ''SAPGUI'', GetScriptingEngine,
      OpenConnection ''SAP PRD'', Sleep 3, Children, ResizeWorkingPane])"
    by code_simp
  have i2: "SapGui_init (init failing_main) get_sap_config new_SapGui =
     (Returns (), attached_SapGui,
     [RunApplication ''saplogon.exe'', Sleep 2, GetObject ''SAPGUI'', GetScriptingEngine,
      OpenConnection ''SAP PRD'', Sleep 3, Children, ResizeWorkingPane])"
    by code_simp
  have t1: "sapLogin_try (login ok_main) attached_SapGui =
     (Returns True, attached_SapGui,
      credentials_trace @ [ActiveWindowName, ActiveWindowName, FindById ''wnd[0]/tbar[0]/btn[15]''])"
    by code_simp
  have t2: "sapLogin_try (login failing_main) attached_SapGui =
     (Raises (Exception ''The control could not be found by id.''), attached_SapGui,
      [SetText ''wnd[0]/usr/txtRSYST-MANDT'' ''110''])"
    by code_simp
  have m1: "main ok_main = (fst (main ok_main), snd (main ok_main))" by simp
  have m2: "main failing_main = (fst (main failing_main), snd (main failing_main))" by simp
  from main_teardown [OF m1] main_teardown [OF m2] i1 i2 t1 t2
  show ?thesis by simp
qed

theorem main_release_twice_counterexample:
  "releases (snd (main failing_main)) = 2
   \<and> snd (main failing_main) =
     [RunApplication ''saplogon.exe'', Sleep 2, GetObject ''SAPGUI'', GetScriptingEngine,
      OpenConnection ''SAP PRD'', Sleep 3, Children, ResizeWorkingPane,
      SetText ''wnd[0]/usr/txtRSYST-MANDT'' ''110'',
      CloseConnectionCalled, CloseSession ''ses[0]'',
      LogoutCalled, SetText ''wnd[0]/tbar[0]/okcd'' ''/nex'', SendVKey ''wnd[0]'',
      CloseConnectionCalled]"
  by code_simp

lemma probe_session_eq:
  "probe_session st eid r =
     (if usable st then (r, [FindById eid]) else (Raises (session_error st ''findById''), []))"
  by (simp add: probe_session_def on_session_usable on_session_unusable)

lemma probe_session_counts:
  assumes "probe_session st eid r = (r', tr1)"
  shows "count_list tr1 (Sleep 1) = 0 \<and> count_list tr1 (FindById eid) \<le> 1"
  using assms by (auto simp: probe_session_eq split: if_splits)

lemma wait_loop_deadline:
  assumes d: "of_int timeout \<le> clock env (Suc k) - start"
  shows "i \<le> k \<Longrightarrow>
     \<exists>b tr'. wait_loop env st eid start timeout i tr = Some (b, tr')
       \<and> count_list tr' (Sleep 1) \<le> count_list tr (Sleep 1) + (k - i)
       \<and> count_list tr' (FindById eid) \<le> count_list tr (FindById eid) + (k - i)"
proof (induction "k - i" arbitrary: i tr)
  case 0
  then have "i = k" by simp
  with d have "\<not> clock env (Suc i) - start < of_int timeout" by simp
  then have "wait_loop env st eid start timeout i tr = Some (False, tr)"
    by (subst wait_loop.simps) simp
  then show ?case by auto
next
  case (Suc n)
  then have lt: "i < k" and n: "n = k - Suc i" and le: "Suc i \<le> k" by simp_all
  show ?case
  proof (cases "clock env (Suc i) - start < of_int timeout")
    case False
    then have "wait_loop env st eid start timeout i tr = Some (False, tr)"
      by (subst wait_loop.simps) simp
    then show ?thesis by auto
  next
    case True
    obtain r tr1 where p: "probe_session st eid (probe env i) = (r, tr1)"
      by (cases "probe_session st eid (probe env i)") auto
    note c = probe_session_counts [OF p]
    show ?thesis
    proof (cases r)
      case (Returns found)
      show ?thesis
      proof (cases found)
        case True
        with \<open>clock env (Suc i) - start < of_int timeout\<close> p Returns
        have "wait_loop env st eid start timeout i tr = Some (True, tr @ tr1)"
          by (subst wait_loop.simps) simp
        with c lt show ?thesis by auto
      next
        case False
        with \<open>clock env (Suc i) - start < of_int timeout\<close> p Returns
        have u: "wait_loop env st eid start timeout i tr =
                 wait_loop env st eid start timeout (Suc i) (tr @ tr1)"
          by (subst wait_loop.simps) simp
        from Suc.hyps(1) [OF n le, of "tr @ tr1"] obtain b tr' where
          "wait_loop env st eid start timeout (Suc i) (tr @ tr1) = Some (b, tr')"
          "count_list tr' (Sleep 1) \<le> count_list (tr @ tr1) (Sleep 1) + (k - Suc i)"
          "count_list tr' (FindById eid) \<le> count_list (tr @ tr1) (FindById eid) + (k - Suc i)"
          by blast
        with u c lt show ?thesis by (simp; arith)
      qed
    next
      case (Raises e)
      with True p
      have u: "wait_loop env st eid start timeout i tr =
               wait_loop env st eid start timeout (Suc i) (tr @ tr1 @ [Sleep 1])"
        by (subst wait_loop.simps) simp
      from Suc.hyps(1) [OF n le, of "tr @ tr1 @ [Sleep 1]"] obtain b tr' where
        "wait_loop env st eid start timeout (Suc i) (tr @ tr1 @ [Sleep 1]) = Some (b, tr')"
        "count_list tr' (Sleep 1) \<le> count_list (tr @ tr1 @ [Sleep 1]) (Sleep 1) + (k - Suc i)"
        "count_list tr' (FindById eid)
           \<le> count_list (tr @ tr1 @ [Sleep 1]) (FindById eid) + (k - Suc i)"
        by blast
      with u c lt show ?thesis by (simp; arith)
    qed
  qed
qed

lemma wait_loop_ticking:
  assumes tick: "\<And>i e. fst (probe_session st eid (probe env i)) = Raises e
                   \<Longrightarrow> clock env (Suc i) + 1 \<le> clock env (Suc (Suc i))"
    and found: "\<And>i. fst (probe_session st eid (probe env i)) \<noteq> Returns False"
  shows "i \<le> nat timeout \<Longrightarrow> real i \<le> clock env (Suc i) - start
     \<Longrightarrow> count_list tr (Sleep 1) = i
     \<Longrightarrow> \<exists>b tr'. wait_loop env st eid start timeout i tr = Some (b, tr')
           \<and> count_list tr' (Sleep 1) \<le> nat timeout"
proof (induction "nat timeout - i" arbitrary: i tr)
  case 0
  then have "i = nat timeout" by simp
  then have "of_int timeout \<le> real i" by simp
  with "0.prems"(2) have "\<not> clock env (Suc i) - start < of_int timeout" by simp
  then have "wait_loop env st eid start timeout i tr = Some (False, tr)"
    by (subst wait_loop.simps) simp
  with "0.prems" show ?case by auto
next
  case (Suc n)
  then have lt: "i < nat timeout" and n: "n = nat timeout - Suc i"
    and le: "Suc i \<le> nat timeout" by simp_all
  show ?case
  proof (cases "clock env (Suc i) - start < of_int timeout")
    case False
    then have "wait_loop env st eid start timeout i tr = Some (False, tr)"
      by (subst wait_loop.simps) simp
    with Suc.prems show ?thesis by auto
  next
    case True
    obtain r tr1 where p: "probe_session st eid (probe env i) = (r, tr1)"
      by (cases "probe_session st eid (probe env i)") auto
    note c = probe_session_counts [OF p]
    show ?thesis
    proof (cases r)
      case (Returns b)
      with found [of i] p have "b" by simp
      with True p Returns
      have "wait_loop env st eid start timeout i tr = Some (True, tr @ tr1)"
        by (subst wait_loop.simps) simp
      with c Suc.prems show ?thesis by auto
    next
      case (Raises e)
      with True p
      have u: "wait_loop env st eid start timeout i tr =
               wait_loop env st eid start timeout (Suc i) (tr @ tr1 @ [Sleep 1])"
        by (subst wait_loop.simps) simp
      from tick [of i e] p Raises have "clock env (Suc i) + 1 \<le> clock env (Suc (Suc i))"
        by simp
      with Suc.prems(2) have t: "real (Suc i) \<le> clock env (Suc (Suc i)) - start" by simp
      from c Suc.prems(3) have s: "count_list (tr @ tr1 @ [Sleep 1]) (Sleep 1) = Suc i" by simp
      from Suc.hyps(1) [OF n le t s] u show ?thesis by simp
    qed
  qed
qed

section \<open>Properties of the polling loop\<close>

text \<open>
  C9. Time is what the clock of the environment shows. On a clock that does not run
  backwards, \<open>wait_for_element\<close> with timeout 0 returns \<open>False\<close> at once: it probes
  nothing and sleeps never. The default timeout is 60. In general the call returns a
  boolean as soon as a reading of the clock is at least the timeout after the first
  one, having probed no more often than there were readings before that one. Where
  every probe that fails raises, and the sleep after it lasts at least one time unit,
  the call returns after at most as many sleeps as the timeout has units.
\<close>

theorem wait_for_element_bounded:
  "(clock env 0 \<le> clock env 1 \<longrightarrow> wait_for_element env st eid 0 = Some (False, []))
   \<and> wait_for_element_default env st eid = wait_for_element env st eid 60
   \<and> (of_int timeout \<le> clock env (Suc k) - clock env 0 \<longrightarrow>
        (\<exists>b tr. wait_for_element env st eid timeout = Some (b, tr)
           \<and> count_list tr (FindById eid) \<le> k \<and> count_list tr (Sleep 1) \<le> k))
   \<and> (clock env 0 \<le> clock env 1
      \<and> (\<forall>i e. fst (probe_session st eid (probe env i)) = Raises e
                 \<longrightarrow> clock env (Suc i) + 1 \<le> clock env (Suc (Suc i)))
      \<and> (\<forall>i. fst (probe_session st eid (probe env i)) \<noteq> Returns False) \<longrightarrow>
        (\<exists>b tr. wait_for_element env st eid timeout = Some (b, tr)
           \<and> count_list tr (Sleep 1) \<le> nat timeout))"
proof (intro conjI impI)
  assume "clock env 0 \<le> clock env 1"
  then have "\<not> clock env (Suc 0) - clock env 0 < of_int 0" by simp
  then show "wait_for_element env st eid 0 = Some (False, [])"
    unfolding wait_for_element_def by (subst wait_loop.simps) simp
next
  show "wait_for_element_default env st eid = wait_for_element env st eid 60"
    by (simp add: wait_for_element_default_def DEFAULT_TIMEOUT_def)
next
  assume d: "of_int timeout \<le> clock env (Suc k) - clock env 0"
  from wait_loop_deadline [OF d, of 0 st eid "[]"]
  show "\<exists>b tr. wait_for_element env st eid timeout = Some (b, tr)
           \<and> count_list tr (FindById eid) \<le> k \<and> count_list tr (Sleep 1) \<le> k"
    unfolding wait_for_element_def by auto
next
  assume h: "clock env 0 \<le> clock env 1
      \<and> (\<forall>i e. fst (probe_session st eid (probe env i)) = Raises e
                 \<longrightarrow> clock env (Suc i) + 1 \<le> clock env (Suc (Suc i)))
      \<and> (\<forall>i. fst (probe_session st eid (probe env i)) \<noteq> Returns False)"
  then have mono: "real 0 \<le> clock env (Suc 0) - clock env 0" by simp
  have "\<exists>b tr'. wait_loop env st eid (clock env 0) timeout 0 [] = Some (b, tr')
           \<and> count_list tr' (Sleep 1) \<le> nat timeout"
    by (rule wait_loop_ticking [OF _ _ _ mono]) (use h in \<open>simp_all\<close>)
  then show "\<exists>b tr. wait_for_element env st eid timeout = Some (b, tr)
           \<and> count_list tr (Sleep 1) \<le> nat timeout"
    unfolding wait_for_element_def .
qed

theorem wait_for_element_bounded_witness:
  "wait_for_element never_found attached_SapGui ''wnd[0]/usr/ctxtVBAK-AUART'' 0 = Some (False, [])
   \<and> wait_for_element never_found attached_SapGui ''wnd[0]/usr/ctxtVBAK-AUART'' 2 =
       Some (False, [FindById ''wnd[0]/usr/ctxtVBAK-AUART'', Sleep 1])
   \<and> clock never_found 0 \<le> clock never_found 1
   \<and> of_int 2 \<le> clock never_found (Suc 1) - clock never_found 0"
proof -
  have u: "usable attached_SapGui" by (simp add: usable_def attached_SapGui_def)
  have p: "probe_session attached_SapGui eid (probe never_found i) =
     (Raises (Exception ''The control could not be found by id.''), [FindById eid])" for eid i
    by (simp add: probe_session_eq u never_found_def)
  have c: "clock never_found k = real k" for k by (simp add: never_found_def)
  have w2: "wait_loop never_found attached_SapGui ''wnd[0]/usr/ctxtVBAK-AUART'' 0 2 (Suc 0)
              [FindById ''wnd[0]/usr/ctxtVBAK-AUART'', Sleep 1] =
            Some (False, [FindById ''wnd[0]/usr/ctxtVBAK-AUART'', Sleep 1])"
    by (subst wait_loop.simps) (simp add: c)
  have w1: "wait_loop never_found attached_SapGui ''wnd[0]/usr/ctxtVBAK-AUART'' 0 2 0 [] =
            Some (False, [FindById ''wnd[0]/usr/ctxtVBAK-AUART'', Sleep 1])"
    by (subst wait_loop.simps) (use w2 in \<open>simp add: c p\<close>)
  from wait_for_element_bounded [of never_found attached_SapGui "''wnd[0]/usr/ctxtVBAK-AUART''" 2 1]
    w1
  show ?thesis by (simp add: wait_for_element_def c)
qed

end
